theory Spec2Isabelle
  imports
    Main
    "HOL-Library.Word"
    "HOL-Library.Finite_Map"
    "HOL-Library.Char_ord"
    "HOL-Library.List_Lexorder"
begin

section \<open>Go values used by the client\<close>

text \<open>
  The client of \<^verbatim>\<open>src/nifi/client.go\<close> never computes with a \<^verbatim>\<open>float64\<close>: it stores
  coordinates and hands them to \<^verbatim>\<open>encoding/json\<close>. A \<^verbatim>\<open>float64\<close> is therefore kept as its
  IEEE 754 binary64 bit pattern. The zero value of Go is the pattern \<open>0\<close>; a value is
  finite unless its eleven exponent bits are all set (the infinities and the NaNs).
\<close>

type_synonym float64 = "64 word"

definition finite_float64 :: "float64 \<Rightarrow> bool" where
  "finite_float64 f = (take_bit 11 (drop_bit 52 f) \<noteq> (2047 :: 64 word))"

text \<open>
  A JSON document as a tree. The members of an object keep the order in which
  \<^verbatim>\<open>encoding/json\<close> writes them: declaration order for the fields of a struct, sorted keys
  for a map. \<open>JFloat\<close> carries the \<^verbatim>\<open>float64\<close> that is to be written, so that the tree of a
  value exists even when the value cannot be written.
\<close>

datatype json =
    JNull
  | JBool bool
  | JInt int
  | JFloat float64
  | JString string
  | JArray "json list"
  | JObject "(string \<times> json) list"

text \<open>
  A value of type \<^verbatim>\<open>interface{}\<close>: the nil interface, or a dynamic value, which is kept as
  the tree \<^verbatim>\<open>encoding/json\<close> makes of it. Only the comparison with nil and the encoding are
  ever applied to such a value. A dynamic value that is written \<^verbatim>\<open>null\<close>, such as a nil
  pointer held in the interface, is \<open>IVal JNull\<close> and does not equal nil.
\<close>

datatype iface = INil | IVal json

text \<open>A slice is nil or holds elements; ranging over a nil slice visits nothing.\<close>

type_synonym 'a slice = "'a list option"

definition elems :: "'a slice \<Rightarrow> 'a list" where
  "elems s = (case s of None \<Rightarrow> [] | Some xs \<Rightarrow> xs)"

text \<open>A map is nil or a finite table; reading a nil map finds no entry.\<close>

type_synonym properties = "(string, iface) fmap option"

definition entries :: "properties \<Rightarrow> (string, iface) fmap" where
  "entries m = (case m of None \<Rightarrow> fmempty | Some t \<Rightarrow> t)"

section \<open>The entities (lines 25--32, 74--84, 123--151, 239--256)\<close>

record Revision =
  Version :: int

record Position =
  X :: float64
  Y :: float64

record ProcessGroupComponent =
  Id :: string
  ParentGroupId :: string
  Name :: string
  Position :: Position

record ProcessGroup =
  Revision :: Revision
  Component :: ProcessGroupComponent

record ProcessorRelationship =
  Name :: string
  AutoTerminate :: bool

record ProcessorConfig =
  SchedulingStrategy :: string
  SchedulingPeriod :: string
  ConcurrentlySchedulableTaskCount :: int
  Properties :: properties
  AutoTerminatedRelationships :: "string slice"

record ProcessorComponent =
  Id :: string
  ParentGroupId :: string
  Name :: string
  Type :: string
  Position :: Position
  State :: string
  Config :: ProcessorConfig
  Relationships :: "ProcessorRelationship slice"

record Processor =
  Revision :: Revision
  Component :: ProcessorComponent

record ConnectionHand =
  Type :: string
  Id :: string

record ConnectionComponent =
  Id :: string
  ParentGroupId :: string
  Source :: ConnectionHand
  Destination :: ConnectionHand
  SelectedRelationships :: "string slice"
  Bends :: "Position slice"

record Connection =
  Revision :: Revision
  Component :: ConnectionComponent

text \<open>The zero values, as \<^verbatim>\<open>ProcessGroup{}\<close>, \<^verbatim>\<open>Processor{}\<close> and \<^verbatim>\<open>Connection{}\<close> make them.\<close>

definition zero_Revision :: Revision where
  "zero_Revision = \<lparr>Version = 0\<rparr>"

definition zero_Position :: Position where
  "zero_Position = \<lparr>X = 0, Y = 0\<rparr>"

definition zero_ProcessGroupComponent :: ProcessGroupComponent where
  "zero_ProcessGroupComponent =
     \<lparr>ProcessGroupComponent.Id = [], ProcessGroupComponent.ParentGroupId = [],
      ProcessGroupComponent.Name = [], ProcessGroupComponent.Position = zero_Position\<rparr>"

definition zero_ProcessGroup :: ProcessGroup where
  "zero_ProcessGroup =
     \<lparr>ProcessGroup.Revision = zero_Revision,
      ProcessGroup.Component = zero_ProcessGroupComponent\<rparr>"

definition zero_ProcessorConfig :: ProcessorConfig where
  "zero_ProcessorConfig =
     \<lparr>SchedulingStrategy = [], SchedulingPeriod = [], ConcurrentlySchedulableTaskCount = 0,
      Properties = None, AutoTerminatedRelationships = None\<rparr>"

definition zero_ProcessorComponent :: ProcessorComponent where
  "zero_ProcessorComponent =
     \<lparr>ProcessorComponent.Id = [], ProcessorComponent.ParentGroupId = [],
      ProcessorComponent.Name = [], ProcessorComponent.Type = [],
      ProcessorComponent.Position = zero_Position, State = [],
      ProcessorComponent.Config = zero_ProcessorConfig, Relationships = None\<rparr>"

definition zero_Processor :: Processor where
  "zero_Processor =
     \<lparr>Processor.Revision = zero_Revision, Processor.Component = zero_ProcessorComponent\<rparr>"

definition zero_ConnectionHand :: ConnectionHand where
  "zero_ConnectionHand = \<lparr>ConnectionHand.Type = [], ConnectionHand.Id = []\<rparr>"

definition zero_ConnectionComponent :: ConnectionComponent where
  "zero_ConnectionComponent =
     \<lparr>ConnectionComponent.Id = [], ConnectionComponent.ParentGroupId = [],
      Source = zero_ConnectionHand, Destination = zero_ConnectionHand,
      SelectedRelationships = None, Bends = None\<rparr>"

definition zero_Connection :: Connection where
  "zero_Connection =
     \<lparr>Connection.Revision = zero_Revision, Connection.Component = zero_ConnectionComponent\<rparr>"

section \<open>What \<^verbatim>\<open>encoding/json\<close> makes of the entities\<close>

text \<open>
  Each struct becomes an object with one member per field, named by the field's
  \<^verbatim>\<open>json\<close> tag, in declaration order. A field tagged \<^verbatim>\<open>omitempty\<close> is left out when it is
  empty; in this file only the string fields \<^verbatim>\<open>id\<close> and \<^verbatim>\<open>state\<close> carry the tag, and a
  string is empty when its length is zero. A nil slice and a nil map are written
  \<^verbatim>\<open>null\<close>.
\<close>

definition omitempty :: "string \<Rightarrow> string \<Rightarrow> (string \<times> json) list" where
  "omitempty k s = (if s = [] then [] else [(k, JString s)])"

definition marshal_strings :: "string slice \<Rightarrow> json" where
  "marshal_strings s = (case s of None \<Rightarrow> JNull | Some xs \<Rightarrow> JArray (map JString xs))"

definition marshal_iface :: "iface \<Rightarrow> json" where
  "marshal_iface v = (case v of INil \<Rightarrow> JNull | IVal j \<Rightarrow> j)"

definition marshal_properties :: "properties \<Rightarrow> json" where
  "marshal_properties m =
     (case m of
        None \<Rightarrow> JNull
      | Some t \<Rightarrow>
          JObject (map (\<lambda>k. (k, case fmlookup t k of None \<Rightarrow> JNull | Some v \<Rightarrow> marshal_iface v))
                       (sorted_list_of_fset (fmdom t))))"

definition marshal_Revision :: "Revision \<Rightarrow> json" where
  "marshal_Revision r = JObject [(''version'', JInt (Version r))]"

definition marshal_Position :: "Position \<Rightarrow> json" where
  "marshal_Position p = JObject [(''x'', JFloat (X p)), (''y'', JFloat (Y p))]"

definition marshal_ProcessGroupComponent :: "ProcessGroupComponent \<Rightarrow> json" where
  "marshal_ProcessGroupComponent c =
     JObject (omitempty ''id'' (ProcessGroupComponent.Id c) @
       [(''parentGroupId'', JString (ProcessGroupComponent.ParentGroupId c)),
        (''name'', JString (ProcessGroupComponent.Name c)),
        (''position'', marshal_Position (ProcessGroupComponent.Position c))])"

definition marshal_ProcessGroup :: "ProcessGroup \<Rightarrow> json" where
  "marshal_ProcessGroup g =
     JObject [(''revision'', marshal_Revision (ProcessGroup.Revision g)),
              (''component'', marshal_ProcessGroupComponent (ProcessGroup.Component g))]"

definition marshal_ProcessorRelationship :: "ProcessorRelationship \<Rightarrow> json" where
  "marshal_ProcessorRelationship r =
     JObject [(''name'', JString (ProcessorRelationship.Name r)),
              (''autoTerminate'', JBool (AutoTerminate r))]"

definition marshal_ProcessorConfig :: "ProcessorConfig \<Rightarrow> json" where
  "marshal_ProcessorConfig c =
     JObject [(''schedulingStrategy'', JString (SchedulingStrategy c)),
              (''schedulingPeriod'', JString (SchedulingPeriod c)),
              (''concurrentlySchedulableTaskCount'', JInt (ConcurrentlySchedulableTaskCount c)),
              (''properties'', marshal_properties (Properties c)),
              (''autoTerminatedRelationships'', marshal_strings (AutoTerminatedRelationships c))]"

definition marshal_ProcessorComponent :: "ProcessorComponent \<Rightarrow> json" where
  "marshal_ProcessorComponent c =
     JObject (omitempty ''id'' (ProcessorComponent.Id c) @
       [(''parentGroupId'', JString (ProcessorComponent.ParentGroupId c)),
        (''name'', JString (ProcessorComponent.Name c)),
        (''type'', JString (ProcessorComponent.Type c)),
        (''position'', marshal_Position (ProcessorComponent.Position c))] @
       omitempty ''state'' (State c) @
       [(''config'', marshal_ProcessorConfig (ProcessorComponent.Config c)),
        (''relationships'',
           (case Relationships c of
              None \<Rightarrow> JNull
            | Some rs \<Rightarrow> JArray (map marshal_ProcessorRelationship rs)))])"

definition marshal_Processor :: "Processor \<Rightarrow> json" where
  "marshal_Processor p =
     JObject [(''revision'', marshal_Revision (Processor.Revision p)),
              (''component'', marshal_ProcessorComponent (Processor.Component p))]"

definition marshal_ConnectionHand :: "ConnectionHand \<Rightarrow> json" where
  "marshal_ConnectionHand h =
     JObject [(''type'', JString (ConnectionHand.Type h)),
              (''id'', JString (ConnectionHand.Id h))]"

definition marshal_ConnectionComponent :: "ConnectionComponent \<Rightarrow> json" where
  "marshal_ConnectionComponent c =
     JObject (omitempty ''id'' (ConnectionComponent.Id c) @
       [(''parentGroupId'', JString (ConnectionComponent.ParentGroupId c)),
        (''source'', marshal_ConnectionHand (Source c)),
        (''destination'', marshal_ConnectionHand (Destination c)),
        (''selectedRelationships'', marshal_strings (SelectedRelationships c)),
        (''bends'',
           (case Bends c of
              None \<Rightarrow> JNull
            | Some ps \<Rightarrow> JArray (map marshal_Position ps)))])"

definition marshal_Connection :: "Connection \<Rightarrow> json" where
  "marshal_Connection n =
     JObject [(''revision'', marshal_Revision (Connection.Revision n)),
              (''component'', marshal_ConnectionComponent (Connection.Component n))]"

text \<open>
  Writing a tree fails on a \<^verbatim>\<open>float64\<close> that is not finite
  (\<^verbatim>\<open>json: unsupported value\<close>); every other leaf can be written.
\<close>

fun encodable :: "json \<Rightarrow> bool" where
  "encodable (JFloat f) = finite_float64 f"
| "encodable (JArray xs) = list_all encodable xs"
| "encodable (JObject kvs) = list_all encodable (map snd kvs)"
| "encodable JNull = True"
| "encodable (JBool b) = True"
| "encodable (JInt i) = True"
| "encodable (JString s) = True"

section \<open>The libraries the client calls\<close>

text \<open>
  The body of a request is a \<^verbatim>\<open>bytes.Buffer\<close>. Its content is kept as the list of the
  JSON documents written to it, so the empty list is a buffer of no bytes.
  \<^verbatim>\<open>Encoder.Encode\<close> builds the whole text of a value before it writes: on a value it
  cannot write it returns an error and leaves the buffer as it was.
\<close>

type_synonym buffer = "json list"

type_synonym bytes = string

record Request =
  Method :: string
  URL :: string
  Body :: "buffer option"
  Header :: "(string \<times> string) list"

record Response =
  StatusCode :: int
  Body :: bytes

text \<open>
  An \<^verbatim>\<open>error\<close> of Go, tagged with the call that made it: \<^verbatim>\<open>http.NewRequest\<close>,
  \<^verbatim>\<open>Client.Do\<close>, \<^verbatim>\<open>Decoder.Decode\<close>, \<^verbatim>\<open>Encoder.Encode\<close>, each with the library's
  message, and the one error this file makes itself (line 58), which is determined by the
  status code it prints.
\<close>

datatype error =
    RequestError string
  | TransportError string
  | CallFailed int
  | DecodeError string
  | EncodeError string

definition Encode :: "buffer \<Rightarrow> json \<Rightarrow> buffer \<times> error option" where
  "Encode buf v =
     (if encodable v then (buf @ [v], None)
      else (buf, Some (EncodeError ''json: unsupported value'')))"

text \<open>
  What the libraries decide is a parameter: whether \<^verbatim>\<open>http.NewRequest\<close> accepts a method
  and a URL (it parses both), and what \<^verbatim>\<open>Decoder.Decode\<close> makes of a response body for
  each type of target. A decoder receives the body and the target as it stands and returns
  the target as it leaves it, with the error if there is one.
\<close>

type_synonym 'o decoder = "bytes \<Rightarrow> 'o \<Rightarrow> string option \<times> 'o"

record stdlib =
  request_error :: "string \<Rightarrow> string \<Rightarrow> string option"
  DecodeProcessGroup :: "ProcessGroup decoder"
  DecodeProcessor :: "Processor decoder"
  DecodeConnection :: "Connection decoder"

definition NewRequest :: "stdlib \<Rightarrow> string \<Rightarrow> string \<Rightarrow> buffer option \<Rightarrow> string + Request" where
  "NewRequest lib method url body =
     (case request_error lib method url of
        Some e \<Rightarrow> Inl e
      | None \<Rightarrow>
          Inr \<lparr>Method = (if method = [] then ''GET'' else method), URL = url,
               Request.Body = body, Header = []\<rparr>)"

text \<open>
  The transport, \<^verbatim>\<open>http.Client\<close>: \<open>Do\<close> answers a request with a response or fails.
  Every operation of this file calls it at most once.
\<close>

record http_Client =
  Do :: "Request \<Rightarrow> string + Response"

text \<open>
  Modelled from the spec: the type \<^verbatim>\<open>Config\<close> is declared outside
  \<^verbatim>\<open>src/nifi/client.go\<close>; the file reads its fields \<^verbatim>\<open>Host\<close> and \<^verbatim>\<open>ApiPath\<close>, the
  configurable host and API path prefix of the spec, both printed with \<^verbatim>\<open>%s\<close>.
\<close>

record Config =
  Host :: string
  ApiPath :: string

record Client =
  Config :: Config
  Client :: http_Client

section \<open>The generic call (lines 34--70)\<close>

text \<open>
  \<^verbatim>\<open>JsonCall\<close> returns an error and a status code, may write its output target, and may
  hand one request to the transport. The result records all four: \<open>out\<close> is the output
  target after the call and \<open>issued\<close> the requests passed to \<open>Do\<close>. The payload and
  the target are of type \<^verbatim>\<open>interface{}\<close> in Go, where the encoder and the decoder find
  the type by reflection; here the function that builds the tree of the payload and the
  decoder of the target are arguments.
\<close>

record 'o JsonCallResult =
  err :: "error option"
  code :: int
  out :: "'o option"
  issued :: "Request list"

definition JsonCall ::
  "stdlib \<Rightarrow> Client \<Rightarrow> ('i \<Rightarrow> json) \<Rightarrow> 'o decoder \<Rightarrow> string \<Rightarrow> string \<Rightarrow>
     'i option \<Rightarrow> 'o option \<Rightarrow> 'o JsonCallResult" where
  "JsonCall lib c marshal decode method url bodyIn bodyOut =
     (let requestBody =
            (case bodyIn of
               None \<Rightarrow> None
             | Some v \<Rightarrow> Some (fst (Encode [] (marshal v))))
      in case NewRequest lib method url requestBody of
           Inl e \<Rightarrow> \<lparr>err = Some (RequestError e), code = 0, out = bodyOut, issued = []\<rparr>
         | Inr request0 \<Rightarrow>
             (let request =
                    (if bodyIn \<noteq> None
                     then request0\<lparr>Header := Header request0 @
                            [(''Content-Type'', ''application/json; charset=utf-8'')]\<rparr>
                     else request0)
              in case Do (Client c) request of
                   Inl e \<Rightarrow>
                     \<lparr>err = Some (TransportError e), code = 0, out = bodyOut,
                      issued = [request]\<rparr>
                 | Inr response \<Rightarrow>
                     if StatusCode response = 404
                     then \<lparr>err = None, code = StatusCode response, out = bodyOut,
                           issued = [request]\<rparr>
                     else if StatusCode response \<ge> 300
                     then \<lparr>err = Some (CallFailed (StatusCode response)),
                           code = StatusCode response, out = bodyOut, issued = [request]\<rparr>
                     else (case bodyOut of
                             None \<Rightarrow>
                               \<lparr>err = None, code = StatusCode response, out = None,
                                issued = [request]\<rparr>
                           | Some target \<Rightarrow>
                               (case decode (Response.Body response) target of
                                  (Some e, target') \<Rightarrow>
                                    \<lparr>err = Some (DecodeError e), code = StatusCode response,
                                     out = Some target', issued = [request]\<rparr>
                                | (None, target') \<Rightarrow>
                                    \<lparr>err = None, code = StatusCode response,
                                     out = Some target', issued = [request]\<rparr>))))"

text \<open>
  An operation that passes a pointer as output target reads the pointed-to structure after
  the call; with no payload, no tree is built and no decoder runs.
\<close>

definition target :: "'o JsonCallResult \<Rightarrow> 'o \<Rightarrow> 'o" where
  "target r v = (case out r of None \<Rightarrow> v | Some v' \<Rightarrow> v')"

definition no_payload :: "unit option" where
  "no_payload = None"

definition no_target :: "unit option" where
  "no_target = None"

definition no_marshal :: "unit \<Rightarrow> json" where
  "no_marshal u = JNull"

definition no_decode :: "unit decoder" where
  "no_decode b u = (None, u)"

section \<open>Process groups (lines 86--119)\<close>

text \<open>
  An operation that takes a pointer reads and writes the structure behind it: here it
  takes the structure and returns it as the call leaves it, next to the error and the
  requests issued. A nil pointer, on which Go panics at the first field it reads, is not an
  input of these functions.
\<close>

definition process_groups_url :: "Client \<Rightarrow> string \<Rightarrow> string" where
  "process_groups_url c processGroupId =
     ''http://'' @ Host (Config c) @ ''/'' @ ApiPath (Config c) @ ''/process-groups/'' @
     processGroupId"

definition CreateProcessGroup ::
  "stdlib \<Rightarrow> Client \<Rightarrow> ProcessGroup \<Rightarrow> error option \<times> ProcessGroup \<times> Request list" where
  "CreateProcessGroup lib c processGroup =
     (let url = ''http://'' @ Host (Config c) @ ''/'' @ ApiPath (Config c) @
                ''/process-groups/'' @
                ProcessGroupComponent.ParentGroupId (ProcessGroup.Component processGroup) @
                ''/process-groups'';
          r = JsonCall lib c marshal_ProcessGroup (DecodeProcessGroup lib) ''POST'' url
                (Some processGroup) (Some processGroup)
      in (err r, target r processGroup, issued r))"

definition GetProcessGroup ::
  "stdlib \<Rightarrow> Client \<Rightarrow> string \<Rightarrow> ProcessGroup option \<times> error option \<times> Request list" where
  "GetProcessGroup lib c processGroupId =
     (let url = process_groups_url c processGroupId;
          processGroup = zero_ProcessGroup;
          r = JsonCall lib c no_marshal (DecodeProcessGroup lib) ''GET'' url
                no_payload (Some processGroup)
      in if err r \<noteq> None then (None, err r, issued r)
         else if 404 = code r then (None, None, issued r)
         else (Some (target r processGroup), None, issued r))"

definition UpdateProcessGroup ::
  "stdlib \<Rightarrow> Client \<Rightarrow> ProcessGroup \<Rightarrow> error option \<times> ProcessGroup \<times> Request list" where
  "UpdateProcessGroup lib c processGroup =
     (let url = process_groups_url c
                  (ProcessGroupComponent.Id (ProcessGroup.Component processGroup));
          r = JsonCall lib c marshal_ProcessGroup (DecodeProcessGroup lib) ''PUT'' url
                (Some processGroup) (Some processGroup)
      in (err r, target r processGroup, issued r))"

definition DeleteProcessGroup ::
  "stdlib \<Rightarrow> Client \<Rightarrow> string \<Rightarrow> error option \<times> Request list" where
  "DeleteProcessGroup lib c processGroupId =
     (let url = process_groups_url c processGroupId;
          r = JsonCall lib c no_marshal no_decode ''DELETE'' url no_payload no_target
      in (err r, issued r))"

section \<open>Processors (lines 153--235)\<close>

text \<open>
  \<^verbatim>\<open>ProcessorCleanupNilProperties\<close> ranges over the map and deletes the entry under
  the current key when its value is nil. Go leaves the order of the keys open; the loop is
  the recursion \<open>cleanup_range\<close> over the keys in the order visited, and the function
  visits them sorted. The lemma \<open>cleanup_range_any_order\<close> below shows that no other
  order gives another map. The Go function always returns the nil error, which its
  callers drop.
\<close>

fun cleanup_range :: "string list \<Rightarrow> (string, iface) fmap \<Rightarrow> (string, iface) fmap" where
  "cleanup_range [] m = m"
| "cleanup_range (k # ks) m =
     cleanup_range ks (if fmlookup m k = Some INil then fmdrop k m else m)"

definition ProcessorCleanupNilProperties :: "Processor \<Rightarrow> Processor" where
  "ProcessorCleanupNilProperties processor =
     (case Properties (ProcessorComponent.Config (Processor.Component processor)) of
        None \<Rightarrow> processor
      | Some m \<Rightarrow>
          processor\<lparr>Processor.Component := (Processor.Component processor)
            \<lparr>ProcessorComponent.Config := (ProcessorComponent.Config (Processor.Component processor))
               \<lparr>Properties := Some (cleanup_range (sorted_list_of_fset (fmdom m)) m)\<rparr>\<rparr>\<rparr>)"

definition processors_url :: "Client \<Rightarrow> string \<Rightarrow> string" where
  "processors_url c processorId =
     ''http://'' @ Host (Config c) @ ''/'' @ ApiPath (Config c) @ ''/processors/'' @
     processorId"

definition CreateProcessor ::
  "stdlib \<Rightarrow> Client \<Rightarrow> Processor \<Rightarrow> error option \<times> Processor \<times> Request list" where
  "CreateProcessor lib c processor =
     (let url = ''http://'' @ Host (Config c) @ ''/'' @ ApiPath (Config c) @
                ''/process-groups/'' @
                ProcessorComponent.ParentGroupId (Processor.Component processor) @
                ''/processors'';
          r = JsonCall lib c marshal_Processor (DecodeProcessor lib) ''POST'' url
                (Some processor) (Some processor)
      in (err r, ProcessorCleanupNilProperties (target r processor), issued r))"

text \<open>The loop of lines 184--189, with the slice built so far as accumulator.\<close>

fun auto_terminated :: "ProcessorRelationship list \<Rightarrow> string list \<Rightarrow> string list" where
  "auto_terminated [] relationships = relationships"
| "auto_terminated (v # vs) relationships =
     auto_terminated vs
       (if AutoTerminate v then relationships @ [ProcessorRelationship.Name v]
        else relationships)"

definition GetProcessor ::
  "stdlib \<Rightarrow> Client \<Rightarrow> string \<Rightarrow> Processor option \<times> error option \<times> Request list" where
  "GetProcessor lib c processorId =
     (let url = processors_url c processorId;
          processor = zero_Processor;
          r = JsonCall lib c no_marshal (DecodeProcessor lib) ''GET'' url
                no_payload (Some processor)
      in if err r \<noteq> None then (None, err r, issued r)
         else if 404 = code r then (None, None, issued r)
         else
           (let processor1 = ProcessorCleanupNilProperties (target r processor);
                relationships =
                  auto_terminated (elems (Relationships (Processor.Component processor1))) []
            in (Some (processor1\<lparr>Processor.Component := (Processor.Component processor1)
                        \<lparr>ProcessorComponent.Config := (ProcessorComponent.Config (Processor.Component processor1))
                           \<lparr>AutoTerminatedRelationships := Some relationships\<rparr>\<rparr>\<rparr>),
                None, issued r)))"

definition UpdateProcessor ::
  "stdlib \<Rightarrow> Client \<Rightarrow> Processor \<Rightarrow> error option \<times> Processor \<times> Request list" where
  "UpdateProcessor lib c processor =
     (let url = processors_url c (ProcessorComponent.Id (Processor.Component processor));
          r = JsonCall lib c marshal_Processor (DecodeProcessor lib) ''PUT'' url
                (Some processor) (Some processor)
      in (err r, ProcessorCleanupNilProperties (target r processor), issued r))"

definition DeleteProcessor ::
  "stdlib \<Rightarrow> Client \<Rightarrow> string \<Rightarrow> error option \<times> Request list" where
  "DeleteProcessor lib c processorId =
     (let url = processors_url c processorId;
          r = JsonCall lib c no_marshal no_decode ''DELETE'' url no_payload no_target
      in (err r, issued r))"

text \<open>
  The structure \<^verbatim>\<open>stateUpdate\<close> of lines 211--219: a \<^verbatim>\<open>Processor\<close> literal that sets
  the version, the id and the state, every other field being left at its zero value. It is
  passed by value as payload, with no output target.
\<close>

definition stateUpdate :: "Processor \<Rightarrow> string \<Rightarrow> Processor" where
  "stateUpdate processor state =
     zero_Processor
       \<lparr>Processor.Revision := zero_Revision\<lparr>Version := Version (Processor.Revision processor)\<rparr>,
        Processor.Component := zero_ProcessorComponent
          \<lparr>ProcessorComponent.Id := ProcessorComponent.Id (Processor.Component processor),
           State := state\<rparr>\<rparr>"

definition SetProcessorState ::
  "stdlib \<Rightarrow> Client \<Rightarrow> Processor \<Rightarrow> string \<Rightarrow> error option \<times> Processor \<times> Request list" where
  "SetProcessorState lib c processor state =
     (let url = processors_url c (ProcessorComponent.Id (Processor.Component processor));
          r = JsonCall lib c marshal_Processor no_decode ''PUT'' url
                (Some (stateUpdate processor state)) no_target
      in if None = err r
         then (err r,
               processor\<lparr>Processor.Component :=
                 (Processor.Component processor)\<lparr>State := state\<rparr>\<rparr>,
               issued r)
         else (err r, processor, issued r))"

definition StartProcessor ::
  "stdlib \<Rightarrow> Client \<Rightarrow> Processor \<Rightarrow> error option \<times> Processor \<times> Request list" where
  "StartProcessor lib c processor = SetProcessorState lib c processor ''RUNNING''"

definition StopProcessor ::
  "stdlib \<Rightarrow> Client \<Rightarrow> Processor \<Rightarrow> error option \<times> Processor \<times> Request list" where
  "StopProcessor lib c processor = SetProcessorState lib c processor ''STOPPED''"

section \<open>Connections (lines 258--291)\<close>

definition connections_url :: "Client \<Rightarrow> string \<Rightarrow> string" where
  "connections_url c connectionId =
     ''http://'' @ Host (Config c) @ ''/'' @ ApiPath (Config c) @ ''/connections/'' @
     connectionId"

definition CreateConnection ::
  "stdlib \<Rightarrow> Client \<Rightarrow> Connection \<Rightarrow> error option \<times> Connection \<times> Request list" where
  "CreateConnection lib c connection =
     (let url = ''http://'' @ Host (Config c) @ ''/'' @ ApiPath (Config c) @
                ''/process-groups/'' @
                ConnectionComponent.ParentGroupId (Connection.Component connection) @
                ''/connections'';
          r = JsonCall lib c marshal_Connection (DecodeConnection lib) ''POST'' url
                (Some connection) (Some connection)
      in (err r, target r connection, issued r))"

definition GetConnection ::
  "stdlib \<Rightarrow> Client \<Rightarrow> string \<Rightarrow> Connection option \<times> error option \<times> Request list" where
  "GetConnection lib c connectionId =
     (let url = connections_url c connectionId;
          connection = zero_Connection;
          r = JsonCall lib c no_marshal (DecodeConnection lib) ''GET'' url
                no_payload (Some connection)
      in if err r \<noteq> None then (None, err r, issued r)
         else if 404 = code r then (None, None, issued r)
         else (Some (target r connection), None, issued r))"

definition UpdateConnection ::
  "stdlib \<Rightarrow> Client \<Rightarrow> Connection \<Rightarrow> error option \<times> Connection \<times> Request list" where
  "UpdateConnection lib c connection =
     (let url = connections_url c (ConnectionComponent.Id (Connection.Component connection));
          r = JsonCall lib c marshal_Connection (DecodeConnection lib) ''PUT'' url
                (Some connection) (Some connection)
      in (err r, target r connection, issued r))"

definition DeleteConnection ::
  "stdlib \<Rightarrow> Client \<Rightarrow> string \<Rightarrow> error option \<times> Request list" where
  "DeleteConnection lib c connectionId =
     (let url = connections_url c connectionId;
          r = JsonCall lib c no_marshal no_decode ''DELETE'' url no_payload no_target
      in (err r, issued r))"

section \<open>Notions used to state the properties\<close>

text \<open>
  The request \<^verbatim>\<open>JsonCall\<close> hands to the transport once \<^verbatim>\<open>http.NewRequest\<close> has accepted
  the method and the URL; the request of the state transition; the URL of line 87; what
  it means that the server answers a request without payload with 404; and the error of
  a request without payload that fails before any decoding: rejected by
  \<^verbatim>\<open>http.NewRequest\<close>, failed in the transport, or answered with a status of 300 or more
  other than 404.
\<close>

definition request_for :: "('i \<Rightarrow> json) \<Rightarrow> string \<Rightarrow> string \<Rightarrow> 'i option \<Rightarrow> Request" where
  "request_for marshal method url bodyIn =
     \<lparr>Method = (if method = [] then ''GET'' else method), URL = url,
      Request.Body = (case bodyIn of None \<Rightarrow> None | Some v \<Rightarrow> Some (fst (Encode [] (marshal v)))),
      Header = (if bodyIn = None then []
                else [(''Content-Type'', ''application/json; charset=utf-8'')])\<rparr>"

definition state_request :: "Client \<Rightarrow> Processor \<Rightarrow> string \<Rightarrow> Request" where
  "state_request c processor state =
     request_for marshal_Processor ''PUT''
       (processors_url c (ProcessorComponent.Id (Processor.Component processor)))
       (Some (stateUpdate processor state))"

definition create_process_group_url :: "Client \<Rightarrow> ProcessGroup \<Rightarrow> string" where
  "create_process_group_url c g =
     ''http://'' @ Host (Config c) @ ''/'' @ ApiPath (Config c) @ ''/process-groups/'' @
     ProcessGroupComponent.ParentGroupId (ProcessGroup.Component g) @ ''/process-groups''"

definition not_found :: "stdlib \<Rightarrow> Client \<Rightarrow> string \<Rightarrow> string \<Rightarrow> bool" where
  "not_found lib c method url =
     (request_error lib method url = None \<and>
      (case Do (Client c) (request_for no_marshal method url no_payload) of
         Inl e \<Rightarrow> False
       | Inr response \<Rightarrow> StatusCode response = 404))"

definition call_failure :: "stdlib \<Rightarrow> Client \<Rightarrow> string \<Rightarrow> string \<Rightarrow> error option" where
  "call_failure lib c method url =
     (case request_error lib method url of
        Some m \<Rightarrow> Some (RequestError m)
      | None \<Rightarrow>
          (case Do (Client c) (request_for no_marshal method url no_payload) of
             Inl m \<Rightarrow> Some (TransportError m)
           | Inr response \<Rightarrow>
               if StatusCode response \<noteq> 404 \<and> StatusCode response \<ge> 300
               then Some (CallFailed (StatusCode response))
               else None))"

text \<open>Reading and writing nested fields of a processor.\<close>

definition properties_of :: "Processor \<Rightarrow> (string, iface) fmap" where
  "properties_of processor =
     entries (Properties (ProcessorComponent.Config (Processor.Component processor)))"

definition set_Properties :: "Processor \<Rightarrow> properties \<Rightarrow> Processor" where
  "set_Properties processor m =
     processor\<lparr>Processor.Component := (Processor.Component processor)
       \<lparr>ProcessorComponent.Config :=
          (ProcessorComponent.Config (Processor.Component processor))\<lparr>Properties := m\<rparr>\<rparr>\<rparr>"

definition set_State :: "Processor \<Rightarrow> string \<Rightarrow> Processor" where
  "set_State processor state =
     processor\<lparr>Processor.Component := (Processor.Component processor)\<lparr>State := state\<rparr>\<rparr>"

text \<open>
  In the words of the spec: the normalization strips the entries whose value is null; the
  projection is the names of the relationships flagged auto-terminated; the body of a
  state transition holds the revision, the id and the state, and nothing else.
\<close>

definition spec_strip_null :: "(string, iface) fmap \<Rightarrow> (string, iface) fmap" where
  "spec_strip_null m = fmfilter (\<lambda>k. fmlookup m k \<noteq> Some INil) m"

definition spec_auto_terminated :: "Processor \<Rightarrow> string list" where
  "spec_auto_terminated processor =
     map ProcessorRelationship.Name
       (filter AutoTerminate (elems (Relationships (Processor.Component processor))))"

definition spec_state_body :: "Processor \<Rightarrow> string \<Rightarrow> json" where
  "spec_state_body processor state =
     JObject
       [(''revision'', JObject [(''version'', JInt (Version (Processor.Revision processor)))]),
        (''component'', JObject
           [(''id'', JString (ProcessorComponent.Id (Processor.Component processor))),
            (''state'', JString state)])]"

text \<open>
  A stand-in for the server and the libraries, to run the operations on: a transport that
  answers every request with a given status and body, one that cannot connect, a
  library that accepts every request and whose decoders know one response body each, and
  one that rejects a URL with a line feed in it, as \<^verbatim>\<open>net/url\<close> rejects control
  characters.
\<close>

definition fake_Config :: Config where
  "fake_Config = \<lparr>Host = ''nifi:8080'', ApiPath = ''nifi-api''\<rparr>"

definition answering :: "int \<Rightarrow> bytes \<Rightarrow> Client" where
  "answering status body =
     \<lparr>Config = fake_Config,
      Client = \<lparr>Do = (\<lambda>request. Inr \<lparr>StatusCode = status, Response.Body = body\<rparr>)\<rparr>\<rparr>"

definition unreachable :: Client where
  "unreachable =
     \<lparr>Config = fake_Config, Client = \<lparr>Do = (\<lambda>request. Inl ''connection refused'')\<rparr>\<rparr>"

definition fake_relationships :: "ProcessorRelationship list" where
  "fake_relationships =
     [\<lparr>ProcessorRelationship.Name = ''success'', AutoTerminate = True\<rparr>,
      \<lparr>ProcessorRelationship.Name = ''failure'', AutoTerminate = False\<rparr>]"

definition fake_properties :: "(string, iface) fmap" where
  "fake_properties =
     fmupd ''Log Level'' (IVal (JString ''info'')) (fmupd ''Log prefix'' INil fmempty)"

definition created_body :: bytes where
  "created_body = ''{revision:{version:1},component:{id:g1}}''"

definition fake_body :: bytes where
  "fake_body = ''{component:{id:p1,config:{properties:{..}},relationships:[..]}}''"

definition fake_stdlib :: stdlib where
  "fake_stdlib =
     \<lparr>request_error = (\<lambda>method url. None),
      DecodeProcessGroup = (\<lambda>b t.
        if b = created_body
        then (None, t\<lparr>ProcessGroup.Revision := \<lparr>Version = 1\<rparr>,
                       ProcessGroup.Component :=
                         (ProcessGroup.Component t)\<lparr>ProcessGroupComponent.Id := ''g1''\<rparr>\<rparr>)
        else (Some ''unexpected end of JSON input'', t)),
      DecodeProcessor = (\<lambda>b t.
        if b = fake_body
        then (None, t\<lparr>Processor.Component := (Processor.Component t)
                \<lparr>ProcessorComponent.Id := ''p1'',
                 ProcessorComponent.Config :=
                   (ProcessorComponent.Config (Processor.Component t))
                     \<lparr>Properties := Some fake_properties\<rparr>,
                 Relationships := Some fake_relationships\<rparr>\<rparr>)
        else (Some ''unexpected end of JSON input'', t)),
      DecodeConnection = (\<lambda>b t. (Some ''unexpected end of JSON input'', t))\<rparr>"

definition strict_stdlib :: stdlib where
  "strict_stdlib =
     fake_stdlib\<lparr>request_error := (\<lambda>method url.
       if CHR 0x0A \<in> set url then Some ''net/url: invalid control character in URL''
       else None)\<rparr>"

text \<open>
  A processor and a process group as a caller may hold them, a process group that holds a
  revision other than zero, one whose position is \<^verbatim>\<open>math.NaN()\<close>, a \<^verbatim>\<open>float64\<close> that
  cannot be written, and one whose parent id is a line feed.
\<close>

definition fake_Processor :: Processor where
  "fake_Processor =
     \<lparr>Processor.Revision = \<lparr>Version = 3\<rparr>,
      Processor.Component =
        \<lparr>ProcessorComponent.Id = ''p1'', ProcessorComponent.ParentGroupId = ''root'',
         ProcessorComponent.Name = ''log'',
         ProcessorComponent.Type = ''org.apache.nifi.processors.standard.LogAttribute'',
         ProcessorComponent.Position = zero_Position, State = ''STOPPED'',
         ProcessorComponent.Config =
           \<lparr>SchedulingStrategy = ''TIMER_DRIVEN'', SchedulingPeriod = ''0 sec'',
            ConcurrentlySchedulableTaskCount = 1, Properties = Some fake_properties,
            AutoTerminatedRelationships = Some [''success'']\<rparr>,
         Relationships = Some fake_relationships\<rparr>\<rparr>"

definition fake_ProcessGroup :: ProcessGroup where
  "fake_ProcessGroup =
     \<lparr>ProcessGroup.Revision = \<lparr>Version = 0\<rparr>,
      ProcessGroup.Component =
        \<lparr>ProcessGroupComponent.Id = [], ProcessGroupComponent.ParentGroupId = ''root'',
         ProcessGroupComponent.Name = ''etl'',
         ProcessGroupComponent.Position = zero_Position\<rparr>\<rparr>"

definition stale_ProcessGroup :: ProcessGroup where
  "stale_ProcessGroup = fake_ProcessGroup\<lparr>ProcessGroup.Revision := \<lparr>Version = 7\<rparr>\<rparr>"

definition NaN :: float64 where
  "NaN = 0x7FF8000000000001"

definition unwritable_ProcessGroup :: ProcessGroup where
  "unwritable_ProcessGroup =
     fake_ProcessGroup\<lparr>ProcessGroup.Component := (ProcessGroup.Component fake_ProcessGroup)
       \<lparr>ProcessGroupComponent.Position := \<lparr>X = NaN, Y = 0\<rparr>\<rparr>\<rparr>"

definition misnamed_ProcessGroup :: ProcessGroup where
  "misnamed_ProcessGroup =
     fake_ProcessGroup\<lparr>ProcessGroup.Component := (ProcessGroup.Component fake_ProcessGroup)
       \<lparr>ProcessGroupComponent.ParentGroupId := [CHR 0x0A]\<rparr>\<rparr>"

section \<open>The generic call, case by case\<close>

lemma JsonCall_rejected:
  assumes "request_error lib method url = Some e"
  shows "JsonCall lib c marshal decode method url bodyIn bodyOut =
           \<lparr>err = Some (RequestError e), code = 0, out = bodyOut, issued = []\<rparr>"
  using assms by (simp add: JsonCall_def NewRequest_def)

lemma JsonCall_accepted:
  assumes "request_error lib method url = None"
  shows "JsonCall lib c marshal decode method url bodyIn bodyOut =
     (let request = request_for marshal method url bodyIn
      in case Do (Client c) request of
           Inl e \<Rightarrow>
             \<lparr>err = Some (TransportError e), code = 0, out = bodyOut, issued = [request]\<rparr>
         | Inr response \<Rightarrow>
             if StatusCode response = 404
             then \<lparr>err = None, code = 404, out = bodyOut, issued = [request]\<rparr>
             else if StatusCode response \<ge> 300
             then \<lparr>err = Some (CallFailed (StatusCode response)),
                   code = StatusCode response, out = bodyOut, issued = [request]\<rparr>
             else \<lparr>err = (case bodyOut of None \<Rightarrow> None
                          | Some t \<Rightarrow> map_option DecodeError (fst (decode (Response.Body response) t))),
                   code = StatusCode response,
                   out = (case bodyOut of None \<Rightarrow> None
                          | Some t \<Rightarrow> Some (snd (decode (Response.Body response) t))),
                   issued = [request]\<rparr>)"
  using assms
  by (cases bodyIn; cases bodyOut)
     (auto simp: JsonCall_def NewRequest_def request_for_def Let_def
           split: sum.splits option.splits prod.splits)



lemma JsonCall_not_found:
  assumes "not_found lib c method url"
  shows "JsonCall lib c no_marshal decode method url no_payload bodyOut =
           \<lparr>err = None, code = 404, out = bodyOut,
            issued = [request_for no_marshal method url no_payload]\<rparr>"
  using assms
  by (auto simp: not_found_def JsonCall_accepted Let_def split: sum.splits)

lemma not_found_answering: "not_found fake_stdlib (answering 404 b) method url"
  by (simp add: not_found_def fake_stdlib_def answering_def)

lemma JsonCall_get_failure:
  assumes "call_failure lib c method url = Some e"
  shows "err (JsonCall lib c no_marshal decode method url no_payload bodyOut) = Some e"
  using assms
  by (cases "request_error lib method url")
     (auto simp: call_failure_def JsonCall_accepted JsonCall_rejected Let_def
           split: sum.splits if_splits)

lemma JsonCall_nil_404:
  assumes "err (JsonCall lib c no_marshal decode method url no_payload bodyOut) = None"
    and "code (JsonCall lib c no_marshal decode method url no_payload bodyOut) = 404"
  shows "not_found lib c method url"
  using assms
  by (cases "request_error lib method url")
     (auto simp: not_found_def JsonCall_accepted JsonCall_rejected Let_def
           split: sum.splits if_splits)

lemma call_failure_answering:
  "call_failure fake_stdlib (answering s b) method url =
     (if s \<noteq> 404 \<and> s \<ge> 300 then Some (CallFailed s) else None)"
  by (simp add: call_failure_def fake_stdlib_def answering_def)

lemma call_failure_unreachable:
  "call_failure fake_stdlib unreachable method url = Some (TransportError ''connection refused'')"
  by (simp add: call_failure_def fake_stdlib_def unreachable_def)

section \<open>What is written to the request body\<close>

lemma finite_float64_0: "finite_float64 0"
  by (simp add: finite_float64_def)

lemma not_finite_NaN: "\<not> finite_float64 NaN"
  by (simp add: finite_float64_def NaN_def)


lemma Encode_failed_buffer: "\<not> encodable v \<Longrightarrow> fst (Encode buf v) = buf"
  by (simp add: Encode_def)

lemma Encode_written: "encodable v \<Longrightarrow> fst (Encode [] v) = [v]"
  by (simp add: Encode_def)

lemma encodable_marshal_ProcessGroup:
  "encodable (marshal_ProcessGroup g) \<longleftrightarrow>
     finite_float64 (X (ProcessGroupComponent.Position (ProcessGroup.Component g))) \<and>
     finite_float64 (Y (ProcessGroupComponent.Position (ProcessGroup.Component g)))"
  by (simp add: marshal_ProcessGroup_def marshal_ProcessGroupComponent_def
        marshal_Position_def marshal_Revision_def omitempty_def)

lemma Encode_marshal_ProcessGroup:
  "fst (Encode [] (marshal_ProcessGroup g)) =
     (if finite_float64 (X (ProcessGroupComponent.Position (ProcessGroup.Component g))) \<and>
         finite_float64 (Y (ProcessGroupComponent.Position (ProcessGroup.Component g)))
      then [JObject
              [(''revision'', JObject [(''version'', JInt (Version (ProcessGroup.Revision g)))]),
               (''component'', marshal_ProcessGroupComponent (ProcessGroup.Component g))]]
      else [])"
proof (cases "encodable (marshal_ProcessGroup g)")
  case True
  then show ?thesis
    using Encode_written [OF True]
    by (simp add: encodable_marshal_ProcessGroup)
       (simp add: marshal_ProcessGroup_def marshal_Revision_def)
next
  case False
  then show ?thesis
    using Encode_failed_buffer [OF False, of "[]"]
    by (simp add: encodable_marshal_ProcessGroup)
qed

lemma marshal_stateUpdate:
  "marshal_Processor (stateUpdate processor state) =
     JObject
       [(''revision'', JObject [(''version'', JInt (Version (Processor.Revision processor)))]),
        (''component'', JObject
           (omitempty ''id'' (ProcessorComponent.Id (Processor.Component processor)) @
            [(''parentGroupId'', JString []), (''name'', JString []), (''type'', JString []),
             (''position'', JObject [(''x'', JFloat 0), (''y'', JFloat 0)])] @
            omitempty ''state'' state @
            [(''config'', JObject
                [(''schedulingStrategy'', JString []), (''schedulingPeriod'', JString []),
                 (''concurrentlySchedulableTaskCount'', JInt 0), (''properties'', JNull),
                 (''autoTerminatedRelationships'', JNull)]),
             (''relationships'', JNull)]))]"
  by (simp add: marshal_Processor_def marshal_ProcessorComponent_def
        marshal_ProcessorConfig_def marshal_Position_def marshal_Revision_def
        marshal_properties_def marshal_strings_def stateUpdate_def zero_Processor_def
        zero_ProcessorComponent_def zero_ProcessorConfig_def zero_Position_def
        zero_Revision_def)

lemma encodable_stateUpdate: "encodable (marshal_Processor (stateUpdate processor state))"
  by (simp add: marshal_stateUpdate omitempty_def finite_float64_0)

section \<open>The operations, case by case\<close>

lemma CreateProcessGroup_accepted:
  assumes "request_error lib ''POST'' (create_process_group_url c g) = None"
  shows "CreateProcessGroup lib c g =
     (let request = request_for marshal_ProcessGroup ''POST'' (create_process_group_url c g)
                      (Some g)
      in case Do (Client c) request of
           Inl e \<Rightarrow> (Some (TransportError e), g, [request])
         | Inr response \<Rightarrow>
             if StatusCode response = 404 then (None, g, [request])
             else if StatusCode response \<ge> 300
             then (Some (CallFailed (StatusCode response)), g, [request])
             else (map_option DecodeError
                     (fst (DecodeProcessGroup lib (Response.Body response) g)),
                   snd (DecodeProcessGroup lib (Response.Body response) g), [request]))"
  using assms
  by (auto simp: CreateProcessGroup_def create_process_group_url_def JsonCall_accepted
        Let_def target_def split: sum.splits)

lemma CreateProcessGroup_rejected:
  assumes "request_error lib ''POST'' (create_process_group_url c g) = Some m"
  shows "CreateProcessGroup lib c g = (Some (RequestError m), g, [])"
  using assms
  by (simp add: CreateProcessGroup_def create_process_group_url_def JsonCall_rejected
        Let_def target_def)

lemma state_request_eq:
  "state_request c processor state =
     \<lparr>Method = ''PUT'',
      URL = processors_url c (ProcessorComponent.Id (Processor.Component processor)),
      Request.Body = Some [marshal_Processor (stateUpdate processor state)],
      Header = [(''Content-Type'', ''application/json; charset=utf-8'')]\<rparr>"
  by (simp add: state_request_def request_for_def Encode_written encodable_stateUpdate)

lemma SetProcessorState_rejected:
  assumes "request_error lib ''PUT''
             (processors_url c (ProcessorComponent.Id (Processor.Component p))) = Some e"
  shows "SetProcessorState lib c p state = (Some (RequestError e), p, [])"
  using assms by (simp add: SetProcessorState_def JsonCall_rejected Let_def)

lemma SetProcessorState_accepted:
  assumes "request_error lib ''PUT''
             (processors_url c (ProcessorComponent.Id (Processor.Component p))) = None"
  shows "SetProcessorState lib c p state =
     (case Do (Client c) (state_request c p state) of
        Inl e \<Rightarrow> (Some (TransportError e), p, [state_request c p state])
      | Inr response \<Rightarrow>
          if StatusCode response = 404 \<or> StatusCode response < 300
          then (None, set_State p state, [state_request c p state])
          else (Some (CallFailed (StatusCode response)), p, [state_request c p state]))"
  using assms
  by (auto simp: SetProcessorState_def JsonCall_accepted Let_def state_request_def
        set_State_def no_target_def split: sum.splits)

lemma SetProcessorState_cases:
  "SetProcessorState lib c p state = (e, p', tr) \<Longrightarrow>
     (e = None \<and> p' = set_State p state) \<or> (e \<noteq> None \<and> p' = p)"
  by (cases "request_error lib ''PUT''
               (processors_url c (ProcessorComponent.Id (Processor.Component p)))")
     (auto simp: SetProcessorState_accepted SetProcessorState_rejected
           split: sum.splits if_splits)

lemma SetProcessorState_issued:
  assumes "request_error lib ''PUT''
             (processors_url c (ProcessorComponent.Id (Processor.Component p))) = None"
  shows "snd (snd (SetProcessorState lib c p state)) = [state_request c p state]"
  using assms by (simp add: SetProcessorState_accepted split: sum.splits)

section \<open>The normalization and the projection\<close>

text \<open>
  The loop over the keys yields the map stripped of its nil entries whenever the keys
  visited cover the keys of the map, in any order and with any repetition.
\<close>

lemma cleanup_range_lookup:
  "fmlookup (cleanup_range ks m) k =
     (if k \<in> set ks \<and> fmlookup m k = Some INil then None else fmlookup m k)"
proof (induction ks arbitrary: m)
  case Nil
  show ?case by simp
next
  case (Cons a ks)
  show ?case by (simp add: Cons.IH)
qed

lemma cleanup_range_any_order:
  assumes "fmdom' m \<subseteq> set ks"
  shows "cleanup_range ks m = spec_strip_null m"
proof (rule fmap_ext)
  fix k
  have "fmlookup m k = Some INil \<Longrightarrow> k \<in> set ks"
    using assms by (auto simp: fmdom'I)
  then show "fmlookup (cleanup_range ks m) k = fmlookup (spec_strip_null m) k"
    by (auto simp: cleanup_range_lookup spec_strip_null_def)
qed

lemma spec_strip_null_lookup:
  "fmlookup (spec_strip_null m) k = (if fmlookup m k = Some INil then None else fmlookup m k)"
  by (simp add: spec_strip_null_def)

lemma spec_strip_null_idem: "spec_strip_null (spec_strip_null m) = spec_strip_null m"
  by (rule fmap_ext) (simp add: spec_strip_null_lookup)

lemma Cleanup_eq:
  "ProcessorCleanupNilProperties p =
     set_Properties p
       (map_option spec_strip_null
          (Properties (ProcessorComponent.Config (Processor.Component p))))"
proof (cases "Properties (ProcessorComponent.Config (Processor.Component p))")
  case None
  then show ?thesis
    by (simp add: ProcessorCleanupNilProperties_def set_Properties_def)
next
  case (Some m)
  have "cleanup_range (sorted_list_of_fset (fmdom m)) m = spec_strip_null m"
    by (rule cleanup_range_any_order) (simp add: fmdom'_alt_def)
  with Some show ?thesis
    by (simp add: ProcessorCleanupNilProperties_def set_Properties_def)
qed

lemma properties_of_Cleanup:
  "properties_of (ProcessorCleanupNilProperties p) = spec_strip_null (properties_of p)"
  by (cases "Properties (ProcessorComponent.Config (Processor.Component p))")
     (simp_all add: Cleanup_eq set_Properties_def properties_of_def entries_def
        spec_strip_null_def)

lemma Cleanup_no_nil:
  "fmlookup (properties_of (ProcessorCleanupNilProperties p)) k \<noteq> Some INil"
  by (simp add: properties_of_Cleanup spec_strip_null_lookup)

lemma Cleanup_idem:
  "ProcessorCleanupNilProperties (ProcessorCleanupNilProperties p) =
   ProcessorCleanupNilProperties p"
  by (cases "Properties (ProcessorComponent.Config (Processor.Component p))")
     (simp_all add: Cleanup_eq set_Properties_def spec_strip_null_idem)

lemma Cleanup_Relationships:
  "Relationships (Processor.Component (ProcessorCleanupNilProperties p)) =
   Relationships (Processor.Component p)"
  by (simp add: Cleanup_eq set_Properties_def)

lemma auto_terminated_eq:
  "auto_terminated vs acc =
     acc @ map ProcessorRelationship.Name (filter AutoTerminate vs)"
  by (induction vs arbitrary: acc) simp_all

lemma GetProcessor_Some:
  assumes "fst (GetProcessor lib c i) = Some p"
  shows "\<exists>q. p = (ProcessorCleanupNilProperties q)
           \<lparr>Processor.Component := (Processor.Component (ProcessorCleanupNilProperties q))
              \<lparr>ProcessorComponent.Config :=
                 (ProcessorComponent.Config (Processor.Component (ProcessorCleanupNilProperties q)))
                   \<lparr>AutoTerminatedRelationships := Some (spec_auto_terminated q)\<rparr>\<rparr>\<rparr>"
  using assms
  by (auto simp: GetProcessor_def Let_def auto_terminated_eq spec_auto_terminated_def
        Cleanup_Relationships split: if_splits)

lemma GetProcessor_fake:
  "GetProcessor fake_stdlib (answering 200 fake_body) ''p1'' =
     (Some (zero_Processor\<lparr>Processor.Component := zero_ProcessorComponent
        \<lparr>ProcessorComponent.Id := ''p1'',
         ProcessorComponent.Config := zero_ProcessorConfig
           \<lparr>Properties := Some (fmupd ''Log Level'' (IVal (JString ''info'')) fmempty),
            AutoTerminatedRelationships := Some [''success'']\<rparr>,
         Relationships := Some fake_relationships\<rparr>\<rparr>),
      None,
      [request_for no_marshal ''GET'' ''http://nifi:8080/nifi-api/processors/p1'' no_payload])"
proof -
  have lib: "request_error fake_stdlib m u = None" for m u
    by (simp add: fake_stdlib_def)
  have dec: "DecodeProcessor fake_stdlib fake_body t =
     (None, t\<lparr>Processor.Component := (Processor.Component t)
                \<lparr>ProcessorComponent.Id := ''p1'',
                 ProcessorComponent.Config :=
                   (ProcessorComponent.Config (Processor.Component t))
                     \<lparr>Properties := Some fake_properties\<rparr>,
                 Relationships := Some fake_relationships\<rparr>\<rparr>)" for t
    by (simp add: fake_stdlib_def fake_body_def)
  have strip: "spec_strip_null fake_properties = fmupd ''Log Level'' (IVal (JString ''info'')) fmempty"
    by (rule fmap_ext) (simp add: spec_strip_null_lookup fake_properties_def)
  show ?thesis
    by (simp add: GetProcessor_def JsonCall_accepted lib dec Let_def answering_def
          target_def Cleanup_eq set_Properties_def strip auto_terminated_eq
          fake_relationships_def elems_def zero_Processor_def zero_ProcessorComponent_def
          processors_url_def fake_Config_def)
qed

section \<open>The properties\<close>

text \<open>
  C1. For every call to \<^verbatim>\<open>JsonCall\<close> whose request is answered: a response with status
  404 yields a nil error with the status code surfaced, the output target is left as it
  was and the decoder plays no part in the result; a response with status at least 300
  other than 404 yields the error that carries that status code; a response with status
  below 300 yields a nil error and, when an output target was supplied, the body decoded
  into it, a body the decoder rejects yielding the decoder's error.
\<close>

theorem JsonCall_classifies_response:
  assumes "request_error lib method url = None"
    and "Do (Client c) (request_for marshal method url bodyIn) = Inr response"
  shows
    "(let r = JsonCall lib c marshal decode method url bodyIn bodyOut;
          status = StatusCode response
      in (status = 404 \<longrightarrow>
            err r = None \<and> code r = 404 \<and> out r = bodyOut \<and>
            r = JsonCall lib c marshal decode' method url bodyIn bodyOut) \<and>
         (status \<ge> 300 \<and> status \<noteq> 404 \<longrightarrow>
            err r = Some (CallFailed status) \<and> code r = status \<and> out r = bodyOut) \<and>
         (status < 300 \<longrightarrow>
            code r = status \<and>
            (case bodyOut of
               None \<Rightarrow> err r = None \<and> out r = None
             | Some t \<Rightarrow>
                 (case decode (Response.Body response) t of
                    (None, t') \<Rightarrow> err r = None \<and> out r = Some t'
                  | (Some e, t') \<Rightarrow> err r = Some (DecodeError e) \<and> out r = Some t'))))"
  using assms
  by (auto simp: JsonCall_accepted Let_def split: option.splits prod.splits)

theorem JsonCall_classifies_response_witness:
  "(let r = JsonCall fake_stdlib (answering 404 []) no_marshal (DecodeProcessGroup fake_stdlib)
              ''GET'' ''http://nifi:8080/nifi-api/process-groups/g0'' no_payload
              (Some zero_ProcessGroup)
    in err r = None \<and> code r = 404 \<and> out r = Some zero_ProcessGroup) \<and>
   (let r = JsonCall fake_stdlib (answering 500 []) no_marshal (DecodeProcessGroup fake_stdlib)
              ''GET'' ''http://nifi:8080/nifi-api/process-groups/g0'' no_payload
              (Some zero_ProcessGroup)
    in err r = Some (CallFailed 500) \<and> code r = 500 \<and> out r = Some zero_ProcessGroup) \<and>
   (let r = JsonCall fake_stdlib (answering 200 created_body) no_marshal
              (DecodeProcessGroup fake_stdlib)
              ''GET'' ''http://nifi:8080/nifi-api/process-groups/g1'' no_payload
              (Some zero_ProcessGroup)
    in err r = None \<and> code r = 200 \<and>
       out r = Some (zero_ProcessGroup\<lparr>ProcessGroup.Revision := \<lparr>Version = 1\<rparr>,
                 ProcessGroup.Component :=
                   zero_ProcessGroupComponent\<lparr>ProcessGroupComponent.Id := ''g1''\<rparr>\<rparr>)) \<and>
   (let r = JsonCall fake_stdlib (answering 200 ''<html>'') no_marshal
              (DecodeProcessGroup fake_stdlib)
              ''GET'' ''http://nifi:8080/nifi-api/process-groups/g1'' no_payload
              (Some zero_ProcessGroup)
    in err r = Some (DecodeError ''unexpected end of JSON input'') \<and> code r = 200)"
proof -
  let ?g0 = "''http://nifi:8080/nifi-api/process-groups/g0''"
  let ?g1 = "''http://nifi:8080/nifi-api/process-groups/g1''"
  let ?dec = "DecodeProcessGroup fake_stdlib"
  let ?out = "Some zero_ProcessGroup"
  have lib: "request_error fake_stdlib m u = None" for m u
    by (simp add: fake_stdlib_def)
  have srv: "Do (Client (answering s b)) q = Inr \<lparr>StatusCode = s, Response.Body = b\<rparr>" for s b q
    by (simp add: answering_def)
  have html: "''<html>'' \<noteq> created_body"
    by (simp add: created_body_def)
  show ?thesis
    using JsonCall_classifies_response [of fake_stdlib "''GET''" ?g0 "answering 404 []"
        no_marshal no_payload "\<lparr>StatusCode = 404, Response.Body = []\<rparr>" ?dec ?out ?dec,
        OF lib srv]
      JsonCall_classifies_response [of fake_stdlib "''GET''" ?g0 "answering 500 []"
        no_marshal no_payload "\<lparr>StatusCode = 500, Response.Body = []\<rparr>" ?dec ?out ?dec,
        OF lib srv]
      JsonCall_classifies_response [of fake_stdlib "''GET''" ?g1 "answering 200 created_body"
        no_marshal no_payload "\<lparr>StatusCode = 200, Response.Body = created_body\<rparr>" ?dec ?out
        ?dec, OF lib srv]
      JsonCall_classifies_response [of fake_stdlib "''GET''" ?g1 "answering 200 ''<html>''"
        no_marshal no_payload "\<lparr>StatusCode = 200, Response.Body = ''<html>''\<rparr>" ?dec ?out
        ?dec, OF lib srv]
    by (simp add: Let_def fake_stdlib_def zero_ProcessGroup_def html)
qed

text \<open>
  C3. For every id, a Get whose request the server answers with 404 returns no resource
  and no error, for each of \<^verbatim>\<open>GetProcessGroup\<close>, \<^verbatim>\<open>GetProcessor\<close> and
  \<^verbatim>\<open>GetConnection\<close>, the one request issued being the GET of the resource's URL. This
  tells absence from failure: a Get returns no resource and no error only when the server
  answers with 404; a Get whose request is rejected, fails in the transport or is answered
  with another status of 300 or more returns that error and no resource; and no Get
  returns a resource together with an error.
\<close>

theorem Get_of_absent_resource:
  "(not_found lib c ''GET'' (process_groups_url c i) \<longrightarrow>
      GetProcessGroup lib c i =
        (None, None, [request_for no_marshal ''GET'' (process_groups_url c i) no_payload])) \<and>
   (not_found lib c ''GET'' (processors_url c i) \<longrightarrow>
      GetProcessor lib c i =
        (None, None, [request_for no_marshal ''GET'' (processors_url c i) no_payload])) \<and>
   (not_found lib c ''GET'' (connections_url c i) \<longrightarrow>
      GetConnection lib c i =
        (None, None, [request_for no_marshal ''GET'' (connections_url c i) no_payload])) \<and>
   (fst (GetProcessGroup lib c i) = None \<and> fst (snd (GetProcessGroup lib c i)) = None \<longrightarrow>
      not_found lib c ''GET'' (process_groups_url c i)) \<and>
   (fst (GetProcessor lib c i) = None \<and> fst (snd (GetProcessor lib c i)) = None \<longrightarrow>
      not_found lib c ''GET'' (processors_url c i)) \<and>
   (fst (GetConnection lib c i) = None \<and> fst (snd (GetConnection lib c i)) = None \<longrightarrow>
      not_found lib c ''GET'' (connections_url c i)) \<and>
   (call_failure lib c ''GET'' (process_groups_url c i) = Some e \<longrightarrow>
      fst (GetProcessGroup lib c i) = None \<and> fst (snd (GetProcessGroup lib c i)) = Some e) \<and>
   (call_failure lib c ''GET'' (processors_url c i) = Some e \<longrightarrow>
      fst (GetProcessor lib c i) = None \<and> fst (snd (GetProcessor lib c i)) = Some e) \<and>
   (call_failure lib c ''GET'' (connections_url c i) = Some e \<longrightarrow>
      fst (GetConnection lib c i) = None \<and> fst (snd (GetConnection lib c i)) = Some e) \<and>
   (fst (snd (GetProcessGroup lib c i)) \<noteq> None \<longrightarrow> fst (GetProcessGroup lib c i) = None) \<and>
   (fst (snd (GetProcessor lib c i)) \<noteq> None \<longrightarrow> fst (GetProcessor lib c i) = None) \<and>
   (fst (snd (GetConnection lib c i)) \<noteq> None \<longrightarrow> fst (GetConnection lib c i) = None)"
proof (intro conjI impI)
  show "GetProcessGroup lib c i =
      (None, None, [request_for no_marshal ''GET'' (process_groups_url c i) no_payload])"
    if "not_found lib c ''GET'' (process_groups_url c i)"
    using that by (simp add: GetProcessGroup_def JsonCall_not_found Let_def)
  show "GetProcessor lib c i =
      (None, None, [request_for no_marshal ''GET'' (processors_url c i) no_payload])"
    if "not_found lib c ''GET'' (processors_url c i)"
    using that by (simp add: GetProcessor_def JsonCall_not_found Let_def)
  show "GetConnection lib c i =
      (None, None, [request_for no_marshal ''GET'' (connections_url c i) no_payload])"
    if "not_found lib c ''GET'' (connections_url c i)"
    using that by (simp add: GetConnection_def JsonCall_not_found Let_def)
  show "not_found lib c ''GET'' (process_groups_url c i)"
    if "fst (GetProcessGroup lib c i) = None \<and> fst (snd (GetProcessGroup lib c i)) = None"
    using that
    by (auto simp: GetProcessGroup_def Let_def intro: JsonCall_nil_404 split: if_splits)
  show "not_found lib c ''GET'' (processors_url c i)"
    if "fst (GetProcessor lib c i) = None \<and> fst (snd (GetProcessor lib c i)) = None"
    using that
    by (auto simp: GetProcessor_def Let_def intro: JsonCall_nil_404 split: if_splits)
  show "not_found lib c ''GET'' (connections_url c i)"
    if "fst (GetConnection lib c i) = None \<and> fst (snd (GetConnection lib c i)) = None"
    using that
    by (auto simp: GetConnection_def Let_def intro: JsonCall_nil_404 split: if_splits)
  show "fst (GetProcessGroup lib c i) = None"
    and "fst (snd (GetProcessGroup lib c i)) = Some e"
    if "call_failure lib c ''GET'' (process_groups_url c i) = Some e"
    using JsonCall_get_failure [OF that, of "DecodeProcessGroup lib" "Some zero_ProcessGroup"]
    by (simp_all add: GetProcessGroup_def Let_def)
  show "fst (GetProcessor lib c i) = None"
    and "fst (snd (GetProcessor lib c i)) = Some e"
    if "call_failure lib c ''GET'' (processors_url c i) = Some e"
    using JsonCall_get_failure [OF that, of "DecodeProcessor lib" "Some zero_Processor"]
    by (simp_all add: GetProcessor_def Let_def)
  show "fst (GetConnection lib c i) = None"
    and "fst (snd (GetConnection lib c i)) = Some e"
    if "call_failure lib c ''GET'' (connections_url c i) = Some e"
    using JsonCall_get_failure [OF that, of "DecodeConnection lib" "Some zero_Connection"]
    by (simp_all add: GetConnection_def Let_def)
  show "fst (GetProcessGroup lib c i) = None"
    if "fst (snd (GetProcessGroup lib c i)) \<noteq> None"
    using that by (auto simp: GetProcessGroup_def Let_def split: if_splits)
  show "fst (GetProcessor lib c i) = None"
    if "fst (snd (GetProcessor lib c i)) \<noteq> None"
    using that by (auto simp: GetProcessor_def Let_def split: if_splits)
  show "fst (GetConnection lib c i) = None"
    if "fst (snd (GetConnection lib c i)) \<noteq> None"
    using that by (auto simp: GetConnection_def Let_def split: if_splits)
qed

theorem Get_of_absent_resource_witness:
  "not_found fake_stdlib (answering 404 []) ''GET'' ''http://nifi:8080/nifi-api/process-groups/g0'' \<and>
   fst (GetProcessGroup fake_stdlib (answering 404 []) ''g0'') = None \<and>
   fst (snd (GetProcessGroup fake_stdlib (answering 404 []) ''g0'')) = None \<and>
   fst (GetProcessor fake_stdlib (answering 404 []) ''p0'') = None \<and>
   fst (snd (GetProcessor fake_stdlib (answering 404 []) ''p0'')) = None \<and>
   fst (GetConnection fake_stdlib (answering 404 []) ''c0'') = None \<and>
   fst (snd (GetConnection fake_stdlib (answering 404 []) ''c0'')) = None \<and>
   fst (GetProcessGroup fake_stdlib (answering 500 []) ''g0'') = None \<and>
   fst (snd (GetProcessGroup fake_stdlib (answering 500 []) ''g0'')) = Some (CallFailed 500) \<and>
   fst (GetProcessor fake_stdlib (answering 500 []) ''p0'') = None \<and>
   fst (snd (GetProcessor fake_stdlib (answering 500 []) ''p0'')) = Some (CallFailed 500) \<and>
   fst (GetConnection fake_stdlib unreachable ''c0'') = None \<and>
   fst (snd (GetConnection fake_stdlib unreachable ''c0'')) =
     Some (TransportError ''connection refused'')"
proof -
  have nf: "not_found fake_stdlib (answering 404 []) ''GET'' u" for u
    by (rule not_found_answering)
  have f500: "call_failure fake_stdlib (answering 500 []) ''GET'' u = Some (CallFailed 500)" for u
    by (simp add: call_failure_answering)
  have down: "call_failure fake_stdlib unreachable ''GET'' u =
      Some (TransportError ''connection refused'')" for u
    by (rule call_failure_unreachable)
  have g404: "GetProcessGroup fake_stdlib (answering 404 []) ''g0'' =
      (None, None, [request_for no_marshal ''GET''
         (process_groups_url (answering 404 []) ''g0'') no_payload])"
    by (rule Get_of_absent_resource [of fake_stdlib "answering 404 []" "''g0''",
          THEN conjunct1, THEN mp, OF nf])
  have p404: "GetProcessor fake_stdlib (answering 404 []) ''p0'' =
      (None, None, [request_for no_marshal ''GET''
         (processors_url (answering 404 []) ''p0'') no_payload])"
    by (rule Get_of_absent_resource [of fake_stdlib "answering 404 []" "''p0''",
          THEN conjunct2, THEN conjunct1, THEN mp, OF nf])
  have c404: "GetConnection fake_stdlib (answering 404 []) ''c0'' =
      (None, None, [request_for no_marshal ''GET''
         (connections_url (answering 404 []) ''c0'') no_payload])"
    by (rule Get_of_absent_resource [of fake_stdlib "answering 404 []" "''c0''",
          THEN conjunct2, THEN conjunct2, THEN conjunct1, THEN mp, OF nf])
  have g500: "fst (GetProcessGroup fake_stdlib (answering 500 []) ''g0'') = None \<and>
      fst (snd (GetProcessGroup fake_stdlib (answering 500 []) ''g0'')) = Some (CallFailed 500)"
    by (rule Get_of_absent_resource [of fake_stdlib "answering 500 []" "''g0''"
          "CallFailed 500", THEN conjunct2, THEN conjunct2, THEN conjunct2, THEN conjunct2, THEN conjunct2, THEN conjunct2, THEN conjunct1, THEN mp, OF f500])
  have p500: "fst (GetProcessor fake_stdlib (answering 500 []) ''p0'') = None \<and>
      fst (snd (GetProcessor fake_stdlib (answering 500 []) ''p0'')) = Some (CallFailed 500)"
    by (rule Get_of_absent_resource [of fake_stdlib "answering 500 []" "''p0''"
          "CallFailed 500", THEN conjunct2, THEN conjunct2, THEN conjunct2, THEN conjunct2, THEN conjunct2, THEN conjunct2, THEN conjunct2, THEN conjunct1, THEN mp, OF f500])
  have cdown: "fst (GetConnection fake_stdlib unreachable ''c0'') = None \<and>
      fst (snd (GetConnection fake_stdlib unreachable ''c0'')) =
        Some (TransportError ''connection refused'')"
    by (rule Get_of_absent_resource [of fake_stdlib unreachable "''c0''"
          "TransportError ''connection refused''", THEN conjunct2, THEN conjunct2, THEN conjunct2, THEN conjunct2, THEN conjunct2, THEN conjunct2, THEN conjunct2, THEN conjunct2, THEN conjunct1, THEN mp, OF down])
  show ?thesis
    using nf g500 p500 cdown by (simp add: g404 p404 c404)
qed

text \<open>
  C7, as stated: a Delete of an absent resource, answered with 404, returns the generic
  error of line 58. It does not: for the process group \<open>g0\<close> that the server does not
  know, \<^verbatim>\<open>DeleteProcessGroup\<close> returns the nil error.
\<close>

theorem Delete_of_absent_resource_counterexample:
  "not_found fake_stdlib (answering 404 []) ''DELETE''
     (process_groups_url (answering 404 []) ''g0'') \<and>
   fst (DeleteProcessGroup fake_stdlib (answering 404 []) ''g0'') = None \<and>
   fst (DeleteProcessGroup fake_stdlib (answering 404 []) ''g0'') \<noteq> Some (CallFailed 404)"
  by (simp add: DeleteProcessGroup_def JsonCall_not_found not_found_answering Let_def)

text \<open>
  C7, amended. For every id, a Delete whose request the server answers with 404 returns the
  nil error, for each of \<^verbatim>\<open>DeleteProcessGroup\<close>, \<^verbatim>\<open>DeleteProcessor\<close> and
  \<^verbatim>\<open>DeleteConnection\<close>: \<^verbatim>\<open>JsonCall\<close> returns nil for 404 before it tests for a status of
  300 or more (lines 54--59), and Delete returns the error of \<^verbatim>\<open>JsonCall\<close> without
  reading the status code.
\<close>

theorem Delete_of_absent_resource:
  "(not_found lib c ''DELETE'' (process_groups_url c i) \<longrightarrow>
      DeleteProcessGroup lib c i =
        (None, [request_for no_marshal ''DELETE'' (process_groups_url c i) no_payload])) \<and>
   (not_found lib c ''DELETE'' (processors_url c i) \<longrightarrow>
      DeleteProcessor lib c i =
        (None, [request_for no_marshal ''DELETE'' (processors_url c i) no_payload])) \<and>
   (not_found lib c ''DELETE'' (connections_url c i) \<longrightarrow>
      DeleteConnection lib c i =
        (None, [request_for no_marshal ''DELETE'' (connections_url c i) no_payload]))"
  by (simp add: DeleteProcessGroup_def DeleteProcessor_def DeleteConnection_def
        JsonCall_not_found Let_def)

theorem Delete_of_absent_resource_witness:
  "fst (DeleteProcessGroup fake_stdlib (answering 404 []) ''g0'') = None \<and>
   fst (DeleteProcessor fake_stdlib (answering 404 []) ''p0'') = None \<and>
   fst (DeleteConnection fake_stdlib (answering 404 []) ''c0'') = None"
  using Delete_of_absent_resource [of fake_stdlib "answering 404 []" "''g0''"]
    Delete_of_absent_resource [of fake_stdlib "answering 404 []" "''p0''"]
    Delete_of_absent_resource [of fake_stdlib "answering 404 []" "''c0''"]
  by (simp add: not_found_answering)

text \<open>
  C4. For every processor, a state transition that returns the nil error changes the
  in-memory processor in its state field only, which becomes the target state, and leaves
  every other field as it was; a state transition that returns an error leaves the whole
  in-memory processor, its state field included, as it was.
\<close>

theorem SetProcessorState_frame:
  "(let (e, processor', tr) = SetProcessorState lib c processor state
    in (e = None \<longrightarrow>
          processor' = processor\<lparr>Processor.Component :=
                         (Processor.Component processor)\<lparr>State := state\<rparr>\<rparr>) \<and>
       (e \<noteq> None \<longrightarrow> processor' = processor))"
  using SetProcessorState_cases [of lib c processor state]
  by (cases "SetProcessorState lib c processor state") (auto simp: set_State_def)

theorem SetProcessorState_frame_witness:
  "SetProcessorState fake_stdlib (answering 200 []) fake_Processor ''RUNNING'' =
     (None,
      fake_Processor\<lparr>Processor.Component :=
        (Processor.Component fake_Processor)\<lparr>State := ''RUNNING''\<rparr>\<rparr>,
      [state_request (answering 200 []) fake_Processor ''RUNNING'']) \<and>
   SetProcessorState fake_stdlib (answering 409 []) fake_Processor ''RUNNING'' =
     (Some (CallFailed 409), fake_Processor,
      [state_request (answering 409 []) fake_Processor ''RUNNING'']) \<and>
   SetProcessorState fake_stdlib unreachable fake_Processor ''RUNNING'' =
     (Some (TransportError ''connection refused''), fake_Processor,
      [state_request unreachable fake_Processor ''RUNNING''])"
proof -
  have lib: "request_error fake_stdlib m u = None" for m u
    by (simp add: fake_stdlib_def)
  have 1: "fst (SetProcessorState fake_stdlib (answering 200 []) fake_Processor ''RUNNING'') = None"
    and 11: "snd (snd (SetProcessorState fake_stdlib (answering 200 []) fake_Processor ''RUNNING''))
         = [state_request (answering 200 []) fake_Processor ''RUNNING'']"
    and 2: "fst (SetProcessorState fake_stdlib (answering 409 []) fake_Processor ''RUNNING'')
         = Some (CallFailed 409)"
    and 21: "snd (snd (SetProcessorState fake_stdlib (answering 409 []) fake_Processor ''RUNNING''))
         = [state_request (answering 409 []) fake_Processor ''RUNNING'']"
    and 3: "fst (SetProcessorState fake_stdlib unreachable fake_Processor ''RUNNING'')
         = Some (TransportError ''connection refused'')"
    and 31: "snd (snd (SetProcessorState fake_stdlib unreachable fake_Processor ''RUNNING''))
         = [state_request unreachable fake_Processor ''RUNNING'']"
    by (simp_all add: SetProcessorState_accepted lib answering_def unreachable_def)
  show ?thesis
    using SetProcessorState_frame [of fake_stdlib "answering 200 []" fake_Processor "''RUNNING''"]
      SetProcessorState_frame [of fake_stdlib "answering 409 []" fake_Processor "''RUNNING''"]
      SetProcessorState_frame [of fake_stdlib unreachable fake_Processor "''RUNNING''"]
      1 11 2 21 3 31
    by (auto simp: Let_def split: prod.splits)
qed

text \<open>
  C10. For every processor, when the server answers the state-transition PUT with 404,
  \<^verbatim>\<open>SetProcessorState\<close> returns the nil error and sets the in-memory state field to the
  target state: the same error and the same processor that it returns when the server
  answers with a status below 300.
\<close>

theorem SetProcessorState_of_absent_processor:
  assumes "request_error lib ''PUT''
             (processors_url c (ProcessorComponent.Id (Processor.Component processor))) = None"
    and "Do (Client c) (state_request c processor state) = Inr response"
  shows
    "(StatusCode response = 404 \<longrightarrow>
        SetProcessorState lib c processor state =
          (None,
           processor\<lparr>Processor.Component := (Processor.Component processor)\<lparr>State := state\<rparr>\<rparr>,
           [state_request c processor state])) \<and>
     (StatusCode response < 300 \<longrightarrow>
        SetProcessorState lib c processor state =
          (None,
           processor\<lparr>Processor.Component := (Processor.Component processor)\<lparr>State := state\<rparr>\<rparr>,
           [state_request c processor state]))"
  using assms by (simp add: SetProcessorState_accepted set_State_def)

theorem SetProcessorState_of_absent_processor_witness:
  "fst (SetProcessorState fake_stdlib (answering 404 []) fake_Processor ''RUNNING'') = None \<and>
   State (Processor.Component
     (fst (snd (SetProcessorState fake_stdlib (answering 404 []) fake_Processor ''RUNNING''))))
     = ''RUNNING'' \<and>
   fst (SetProcessorState fake_stdlib (answering 200 []) fake_Processor ''RUNNING'') = None \<and>
   fst (snd (SetProcessorState fake_stdlib (answering 200 []) fake_Processor ''RUNNING'')) =
   fst (snd (SetProcessorState fake_stdlib (answering 404 []) fake_Processor ''RUNNING''))"
proof -
  have lib: "request_error fake_stdlib m u = None" for m u
    by (simp add: fake_stdlib_def)
  have srv: "Do (Client (answering s b)) q = Inr \<lparr>StatusCode = s, Response.Body = b\<rparr>" for s b q
    by (simp add: answering_def)
  show ?thesis
    using SetProcessorState_of_absent_processor [of fake_stdlib "answering 404 []"
        fake_Processor "''RUNNING''" "\<lparr>StatusCode = 404, Response.Body = []\<rparr>", OF lib srv]
      SetProcessorState_of_absent_processor [of fake_stdlib "answering 200 []"
        fake_Processor "''RUNNING''" "\<lparr>StatusCode = 200, Response.Body = []\<rparr>", OF lib srv]
    by simp
qed

text \<open>
  C5. For every processor, the nil-property normalization changes nothing but the
  properties mapping, from which it removes exactly the entries whose value is nil (every
  other entry keeps its value, whatever the order in which the keys are visited), and
  applying it twice yields the same as applying it once. The processor that
  \<^verbatim>\<open>CreateProcessor\<close> and \<^verbatim>\<open>UpdateProcessor\<close> leave to their caller, and every processor that
  \<^verbatim>\<open>GetProcessor\<close> returns, has no key with a nil value in its properties mapping.
\<close>

theorem nil_properties_normalized:
  "ProcessorCleanupNilProperties processor =
     processor\<lparr>Processor.Component := (Processor.Component processor)
       \<lparr>ProcessorComponent.Config :=
          (ProcessorComponent.Config (Processor.Component processor))
            \<lparr>Properties :=
               map_option spec_strip_null
                 (Properties (ProcessorComponent.Config (Processor.Component processor)))\<rparr>\<rparr>\<rparr> \<and>
   fmlookup (properties_of (ProcessorCleanupNilProperties processor)) k =
     (if fmlookup (properties_of processor) k = Some INil then None
      else fmlookup (properties_of processor) k) \<and>
   ProcessorCleanupNilProperties (ProcessorCleanupNilProperties processor) =
     ProcessorCleanupNilProperties processor \<and>
   fmlookup (properties_of (fst (snd (CreateProcessor lib c processor)))) k \<noteq> Some INil \<and>
   fmlookup (properties_of (fst (snd (UpdateProcessor lib c processor)))) k \<noteq> Some INil \<and>
   (fst (GetProcessor lib c i) = Some fetched \<longrightarrow>
      fmlookup (properties_of fetched) k \<noteq> Some INil)"
proof -
  have get: "fmlookup (properties_of fetched) k \<noteq> Some INil"
    if "fst (GetProcessor lib c i) = Some fetched"
  proof -
    from GetProcessor_Some [OF that] obtain q where
      "properties_of fetched = properties_of (ProcessorCleanupNilProperties q)"
      by (auto simp: properties_of_def)
    then show ?thesis by (simp add: Cleanup_no_nil)
  qed
  show ?thesis
  proof (intro conjI)
    show "ProcessorCleanupNilProperties processor =
      processor\<lparr>Processor.Component := (Processor.Component processor)
        \<lparr>ProcessorComponent.Config :=
           (ProcessorComponent.Config (Processor.Component processor))
             \<lparr>Properties :=
                map_option spec_strip_null
                  (Properties (ProcessorComponent.Config (Processor.Component processor)))\<rparr>\<rparr>\<rparr>"
      by (simp add: Cleanup_eq set_Properties_def)
    show "fmlookup (properties_of (ProcessorCleanupNilProperties processor)) k =
      (if fmlookup (properties_of processor) k = Some INil then None
       else fmlookup (properties_of processor) k)"
      by (simp only: properties_of_Cleanup spec_strip_null_lookup)
    show "ProcessorCleanupNilProperties (ProcessorCleanupNilProperties processor) =
      ProcessorCleanupNilProperties processor"
      by (rule Cleanup_idem)
    show "fmlookup (properties_of (fst (snd (CreateProcessor lib c processor)))) k \<noteq> Some INil"
      by (simp only: CreateProcessor_def Let_def fst_conv snd_conv Cleanup_no_nil
            not_False_eq_True)
    show "fmlookup (properties_of (fst (snd (UpdateProcessor lib c processor)))) k \<noteq> Some INil"
      by (simp only: UpdateProcessor_def Let_def fst_conv snd_conv Cleanup_no_nil
            not_False_eq_True)
    show "fst (GetProcessor lib c i) = Some fetched \<longrightarrow>
      fmlookup (properties_of fetched) k \<noteq> Some INil"
      using get by blast
  qed
qed

theorem nil_properties_normalized_witness:
  "fmlookup (properties_of fake_Processor) ''Log prefix'' = Some INil \<and>
   fmlookup (properties_of (ProcessorCleanupNilProperties fake_Processor)) ''Log prefix'' = None \<and>
   fmlookup (properties_of (ProcessorCleanupNilProperties fake_Processor)) ''Log Level'' =
     Some (IVal (JString ''info'')) \<and>
   fst (GetProcessor fake_stdlib (answering 200 fake_body) ''p1'') \<noteq> None \<and>
   fmlookup (properties_of (the (fst (GetProcessor fake_stdlib (answering 200 fake_body) ''p1''))))
     ''Log prefix'' \<noteq> Some INil"
  using nil_properties_normalized [of fake_Processor "''Log prefix''" fake_stdlib
      "answering 200 fake_body" "''p1''"
      "the (fst (GetProcessor fake_stdlib (answering 200 fake_body) ''p1''))"]
    nil_properties_normalized [of fake_Processor "''Log Level''"]
  by (simp add: GetProcessor_fake properties_of_Cleanup spec_strip_null_lookup
        properties_of_def fake_Processor_def entries_def fake_properties_def)

text \<open>
  C6. For every processor returned by \<^verbatim>\<open>GetProcessor\<close>, the list
  \<^verbatim>\<open>AutoTerminatedRelationships\<close> is exactly the names, in order, of the relationships in
  the returned relationship list whose \<^verbatim>\<open>AutoTerminate\<close> flag is true; for the
  relationships \<open>success\<close> (auto-terminated) and \<open>failure\<close> (not) it is the list of
  \<open>success\<close> alone.
\<close>

theorem auto_terminated_projection:
  assumes "fst (GetProcessor lib c i) = Some fetched"
  shows "AutoTerminatedRelationships (ProcessorComponent.Config (Processor.Component fetched)) =
           Some (map ProcessorRelationship.Name
                   (filter AutoTerminate (elems (Relationships (Processor.Component fetched)))))"
proof -
  from GetProcessor_Some [OF assms] obtain q where
    "fetched = (ProcessorCleanupNilProperties q)
           \<lparr>Processor.Component := (Processor.Component (ProcessorCleanupNilProperties q))
              \<lparr>ProcessorComponent.Config :=
                 (ProcessorComponent.Config (Processor.Component (ProcessorCleanupNilProperties q)))
                   \<lparr>AutoTerminatedRelationships := Some (spec_auto_terminated q)\<rparr>\<rparr>\<rparr>"
    by blast
  then show ?thesis
    by (simp add: spec_auto_terminated_def Cleanup_Relationships)
qed

theorem auto_terminated_projection_witness:
  "Relationships (Processor.Component
      (the (fst (GetProcessor fake_stdlib (answering 200 fake_body) ''p1'')))) =
     Some [\<lparr>ProcessorRelationship.Name = ''success'', AutoTerminate = True\<rparr>,
           \<lparr>ProcessorRelationship.Name = ''failure'', AutoTerminate = False\<rparr>] \<and>
   AutoTerminatedRelationships (ProcessorComponent.Config (Processor.Component
      (the (fst (GetProcessor fake_stdlib (answering 200 fake_body) ''p1''))))) =
     Some [''success'']"
proof -
  have got: "fst (GetProcessor fake_stdlib (answering 200 fake_body) ''p1'') =
    Some (the (fst (GetProcessor fake_stdlib (answering 200 fake_body) ''p1'')))"
    by (simp add: GetProcessor_fake)
  show ?thesis
    using auto_terminated_projection [OF got]
    by (simp add: GetProcessor_fake fake_relationships_def elems_def)
qed



text \<open>
  C8, as stated: for every process group \<^verbatim>\<open>CreateProcessGroup\<close> issues a POST with a
  revision of zero in the request body, and on success the decoded response overwrites
  the input structure. Four runs show otherwise. For a structure that holds version 7,
  the body carries version 7. For a structure whose position is not finite, the body is
  empty and carries no revision. With a parent id that \<^verbatim>\<open>http.NewRequest\<close> rejects, no
  request is issued. And when the server answers 404, the call succeeds, returning the
  nil error, with nothing decoded: the input structure is as it was.
\<close>

theorem CreateProcessGroup_counterexample:
  "map Request.Body
     (snd (snd (CreateProcessGroup fake_stdlib (answering 201 created_body) stale_ProcessGroup))) =
     [Some [JObject
        [(''revision'', JObject [(''version'', JInt 7)]),
         (''component'', JObject
            [(''parentGroupId'', JString ''root''), (''name'', JString ''etl''),
             (''position'', JObject [(''x'', JFloat 0), (''y'', JFloat 0)])])]]] \<and>
   map Request.Body
     (snd (snd (CreateProcessGroup fake_stdlib (answering 201 created_body)
        unwritable_ProcessGroup))) = [Some []] \<and>
   CreateProcessGroup strict_stdlib (answering 201 created_body) misnamed_ProcessGroup =
     (Some (RequestError ''net/url: invalid control character in URL''),
      misnamed_ProcessGroup, []) \<and>
   fst (CreateProcessGroup fake_stdlib (answering 404 created_body) fake_ProcessGroup) = None \<and>
   fst (snd (CreateProcessGroup fake_stdlib (answering 404 created_body) fake_ProcessGroup)) =
     fake_ProcessGroup"
proof -
  have lib: "request_error fake_stdlib m u = None" for m u
    by (simp add: fake_stdlib_def)
  have stale: "map Request.Body
     (snd (snd (CreateProcessGroup fake_stdlib (answering 201 created_body) stale_ProcessGroup))) =
     [Some [JObject
        [(''revision'', JObject [(''version'', JInt 7)]),
         (''component'', JObject
            [(''parentGroupId'', JString ''root''), (''name'', JString ''etl''),
             (''position'', JObject [(''x'', JFloat 0), (''y'', JFloat 0)])])]]]"
    by (simp add: CreateProcessGroup_accepted lib Let_def answering_def request_for_def
          Encode_def marshal_ProcessGroup_def marshal_ProcessGroupComponent_def
          marshal_Position_def marshal_Revision_def omitempty_def finite_float64_0
          stale_ProcessGroup_def fake_ProcessGroup_def zero_Position_def)
  have nan: "map Request.Body
     (snd (snd (CreateProcessGroup fake_stdlib (answering 201 created_body)
        unwritable_ProcessGroup))) = [Some []]"
    by (simp add: CreateProcessGroup_accepted lib Let_def answering_def request_for_def
          Encode_marshal_ProcessGroup unwritable_ProcessGroup_def not_finite_NaN)
  have rejected: "CreateProcessGroup strict_stdlib (answering 201 created_body)
      misnamed_ProcessGroup =
     (Some (RequestError ''net/url: invalid control character in URL''),
      misnamed_ProcessGroup, [])"
    by (rule CreateProcessGroup_rejected)
       (simp add: strict_stdlib_def create_process_group_url_def misnamed_ProcessGroup_def)
  have absent: "CreateProcessGroup fake_stdlib (answering 404 created_body) fake_ProcessGroup =
      (None, fake_ProcessGroup,
       [request_for marshal_ProcessGroup ''POST''
          (create_process_group_url (answering 404 created_body) fake_ProcessGroup)
          (Some fake_ProcessGroup)])"
    by (simp add: CreateProcessGroup_accepted lib Let_def answering_def)
  show ?thesis
    by (simp add: stale nan rejected absent)
qed

text \<open>
  C8, amended. For every process group with parent id \<open>p\<close>, \<^verbatim>\<open>CreateProcessGroup\<close>
  issues one request, a POST to
  \<^verbatim>\<open>http://<host>/<api-path>/process-groups/<p>/process-groups\<close>, unless
  \<^verbatim>\<open>http.NewRequest\<close> rejects that URL: then it issues nothing and returns that error,
  the input structure unchanged. The body of the request is the JSON encoding of the
  input structure, carrying the revision that the structure holds, when both coordinates
  of its position are finite, and is empty otherwise. When the response has a status below
  300, its body is decoded into the input structure in place and the error returned is the
  decoder's, if any.
\<close>

theorem CreateProcessGroup_request_and_result:
  "(let (e, g', sent) = CreateProcessGroup lib c g;
        url = ''http://'' @ Host (Config c) @ ''/'' @ ApiPath (Config c) @
              ''/process-groups/'' @
              ProcessGroupComponent.ParentGroupId (ProcessGroup.Component g) @
              ''/process-groups'';
        request =
          \<lparr>Method = ''POST'', URL = url,
           Request.Body = Some
             (if finite_float64
                   (X (ProcessGroupComponent.Position (ProcessGroup.Component g))) \<and>
                 finite_float64
                   (Y (ProcessGroupComponent.Position (ProcessGroup.Component g)))
              then [JObject
                      [(''revision'',
                          JObject [(''version'', JInt (Version (ProcessGroup.Revision g)))]),
                       (''component'',
                          marshal_ProcessGroupComponent (ProcessGroup.Component g))]]
              else []),
           Header = [(''Content-Type'', ''application/json; charset=utf-8'')]\<rparr>
    in case request_error lib ''POST'' url of
         Some m \<Rightarrow> e = Some (RequestError m) \<and> g' = g \<and> sent = []
       | None \<Rightarrow>
           sent = [request] \<and>
           (Do (Client c) request = Inr response \<and> StatusCode response < 300 \<longrightarrow>
              e = map_option DecodeError
                    (fst (DecodeProcessGroup lib (Response.Body response) g)) \<and>
              g' = snd (DecodeProcessGroup lib (Response.Body response) g)))"
proof (cases "request_error lib ''POST'' (create_process_group_url c g)")
  case None
  show ?thesis
    using None
    by (auto simp: CreateProcessGroup_accepted [OF None] Let_def request_for_def
          create_process_group_url_def Encode_marshal_ProcessGroup split: sum.splits)
next
  case (Some m)
  show ?thesis
    using Some
    by (simp add: CreateProcessGroup_rejected [OF Some] create_process_group_url_def)
qed

theorem CreateProcessGroup_request_and_result_witness:
  "CreateProcessGroup fake_stdlib (answering 201 created_body) fake_ProcessGroup =
     (None,
      fake_ProcessGroup\<lparr>ProcessGroup.Revision := \<lparr>Version = 1\<rparr>,
        ProcessGroup.Component :=
          (ProcessGroup.Component fake_ProcessGroup)\<lparr>ProcessGroupComponent.Id := ''g1''\<rparr>\<rparr>,
      [\<lparr>Method = ''POST'',
        URL = ''http://nifi:8080/nifi-api/process-groups/root/process-groups'',
        Request.Body = Some [JObject
          [(''revision'', JObject [(''version'', JInt 0)]),
           (''component'', JObject
              [(''parentGroupId'', JString ''root''), (''name'', JString ''etl''),
               (''position'', JObject [(''x'', JFloat 0), (''y'', JFloat 0)])])]],
        Header = [(''Content-Type'', ''application/json; charset=utf-8'')]\<rparr>]) \<and>
   CreateProcessGroup strict_stdlib (answering 201 created_body) misnamed_ProcessGroup =
     (Some (RequestError ''net/url: invalid control character in URL''),
      misnamed_ProcessGroup, [])"
proof -
  have lib: "request_error fake_stdlib m u = None" for m u
    by (simp add: fake_stdlib_def)
  have srv: "Do (Client (answering s b)) q = Inr \<lparr>StatusCode = s, Response.Body = b\<rparr>" for s b q
    by (simp add: answering_def)
  have dec: "DecodeProcessGroup fake_stdlib created_body t =
     (None, t\<lparr>ProcessGroup.Revision := \<lparr>Version = 1\<rparr>,
              ProcessGroup.Component :=
                (ProcessGroup.Component t)\<lparr>ProcessGroupComponent.Id := ''g1''\<rparr>\<rparr>)" for t
    by (simp add: fake_stdlib_def)
  have pos: "ProcessGroupComponent.Position (ProcessGroup.Component fake_ProcessGroup) =
      \<lparr>X = 0, Y = 0\<rparr>"
    by (simp add: fake_ProcessGroup_def zero_Position_def)
  have comp: "marshal_ProcessGroupComponent (ProcessGroup.Component fake_ProcessGroup) =
      JObject [(''parentGroupId'', JString ''root''), (''name'', JString ''etl''),
               (''position'', JObject [(''x'', JFloat 0), (''y'', JFloat 0)])]"
    by (simp add: marshal_ProcessGroupComponent_def marshal_Position_def omitempty_def
          fake_ProcessGroup_def zero_Position_def)
  have rev: "Version (ProcessGroup.Revision fake_ProcessGroup) = 0"
    and par: "ProcessGroupComponent.ParentGroupId (ProcessGroup.Component fake_ProcessGroup) = ''root''"
    by (simp_all add: fake_ProcessGroup_def)
  have created: "CreateProcessGroup fake_stdlib (answering 201 created_body) fake_ProcessGroup =
     (None,
      fake_ProcessGroup\<lparr>ProcessGroup.Revision := \<lparr>Version = 1\<rparr>,
        ProcessGroup.Component :=
          (ProcessGroup.Component fake_ProcessGroup)\<lparr>ProcessGroupComponent.Id := ''g1''\<rparr>\<rparr>,
      [\<lparr>Method = ''POST'',
        URL = ''http://nifi:8080/nifi-api/process-groups/root/process-groups'',
        Request.Body = Some [JObject
          [(''revision'', JObject [(''version'', JInt 0)]),
           (''component'', JObject
              [(''parentGroupId'', JString ''root''), (''name'', JString ''etl''),
               (''position'', JObject [(''x'', JFloat 0), (''y'', JFloat 0)])])]],
        Header = [(''Content-Type'', ''application/json; charset=utf-8'')]\<rparr>])"
    using CreateProcessGroup_request_and_result [of fake_stdlib "answering 201 created_body"
        fake_ProcessGroup "\<lparr>StatusCode = 201, Response.Body = created_body\<rparr>"]
    by (cases "CreateProcessGroup fake_stdlib (answering 201 created_body) fake_ProcessGroup")
       (simp add: Let_def lib srv dec pos comp rev par finite_float64_0 answering_def
          fake_Config_def)
  have rejected: "CreateProcessGroup strict_stdlib (answering 201 created_body)
      misnamed_ProcessGroup =
     (Some (RequestError ''net/url: invalid control character in URL''),
      misnamed_ProcessGroup, [])"
    using CreateProcessGroup_request_and_result [of strict_stdlib "answering 201 created_body"
        misnamed_ProcessGroup]
    by (cases "CreateProcessGroup strict_stdlib (answering 201 created_body)
                 misnamed_ProcessGroup")
       (simp add: Let_def strict_stdlib_def misnamed_ProcessGroup_def)
  show ?thesis
    using created rejected by simp
qed

text \<open>
  C2. The state-transition operation submits a PUT whose body contains only the processor
  id, the caller's last-known revision and the target run-state, with no other component
  field in the serialized body. The code builds a \<^verbatim>\<open>Processor\<close> that sets these three and
  encodes it, and of the fields of \<^verbatim>\<open>ProcessorComponent\<close> only \<^verbatim>\<open>id\<close> and \<^verbatim>\<open>state\<close> are
  tagged \<^verbatim>\<open>omitempty\<close> (lines 137--146): starting processor \<open>p1\<close> with last-known
  revision 3 issues one PUT whose body is not the body of the spec's scenario, for it
  also carries \<^verbatim>\<open>parentGroupId\<close>, \<^verbatim>\<open>name\<close>, \<^verbatim>\<open>type\<close>, \<^verbatim>\<open>position\<close>, \<^verbatim>\<open>config\<close> and
  \<^verbatim>\<open>relationships\<close>, at their zero values.
\<close>

theorem StartProcessor_body_has_zero_fields:
  "snd (snd (StartProcessor fake_stdlib (answering 200 []) fake_Processor)) =
     [\<lparr>Method = ''PUT'', URL = ''http://nifi:8080/nifi-api/processors/p1'',
       Request.Body = Some [JObject
         [(''revision'', JObject [(''version'', JInt 3)]),
          (''component'', JObject
             [(''id'', JString ''p1''),
              (''parentGroupId'', JString []), (''name'', JString []), (''type'', JString []),
              (''position'', JObject [(''x'', JFloat 0), (''y'', JFloat 0)]),
              (''state'', JString ''RUNNING''),
              (''config'', JObject
                 [(''schedulingStrategy'', JString []), (''schedulingPeriod'', JString []),
                  (''concurrentlySchedulableTaskCount'', JInt 0), (''properties'', JNull),
                  (''autoTerminatedRelationships'', JNull)]),
              (''relationships'', JNull)])]],
       Header = [(''Content-Type'', ''application/json; charset=utf-8'')]\<rparr>] \<and>
   spec_state_body fake_Processor ''RUNNING'' =
     JObject [(''revision'', JObject [(''version'', JInt 3)]),
              (''component'', JObject [(''id'', JString ''p1''), (''state'', JString ''RUNNING'')])] \<and>
   map Request.Body (snd (snd (StartProcessor fake_stdlib (answering 200 []) fake_Processor))) \<noteq>
     [Some [spec_state_body fake_Processor ''RUNNING'']]"
proof -
  have lib: "request_error fake_stdlib m u = None" for m u
    by (simp add: fake_stdlib_def)
  have id: "ProcessorComponent.Id (Processor.Component fake_Processor) = ''p1''"
    and rev: "Version (Processor.Revision fake_Processor) = 3"
    by (simp_all add: fake_Processor_def)
  show ?thesis
    by (simp add: StartProcessor_def SetProcessorState_issued lib state_request_eq
          marshal_stateUpdate id rev omitempty_def spec_state_body_def processors_url_def
          answering_def fake_Config_def)
qed

end
